theory Spec2Isabelle
  imports Main
begin

section \<open>Outdated version alerts: the data model\<close>

text \<open>
  The embedding follows \<^verbatim>\<open>outdatedVersionAlert.service.ts\<close>. The alert table of the
  relational store is a list of rows in insertion order. A row carries the fields the
  service reads or writes; the store-managed timestamps are left out, no function of the
  service touches them.
\<close>

datatype EnumOutdatedVersionAlertType = TemplateVersion | PluginVersion

datatype EnumOutdatedVersionAlertStatus = New | Resolved | Canceled

record OutdatedVersionAlert =
  alertId :: nat
  resourceId :: string
  blockId :: "string option"
  alertType :: EnumOutdatedVersionAlertType
  status :: EnumOutdatedVersionAlertStatus
  outdatedVersion :: string
  latestVersion :: string

text \<open>
  Of the kinds of resource the service needs one, the service template; every other kind
  is kept by its name.
\<close>

datatype EnumResourceType = ServiceTemplate | OtherResourceType string

text \<open>
  The payload of a \<^verbatim>\<open>TechDebt.KafkaEvent\<close>, field by field as both fan-out functions
  build it. The alert's id is an opaque identifier; the store hands out natural numbers
  here.
\<close>

record KafkaEvent =
  ev_resourceId :: string
  ev_resourceName :: string
  ev_workspaceId :: string
  ev_projectId :: string
  ev_createdAt :: nat
  ev_techDebtId :: nat
  ev_envBaseUrl :: string
  ev_externalId :: string
  ev_resourceType :: EnumResourceType
  ev_projectName :: string
  ev_alertType :: EnumOutdatedVersionAlertType
  ev_alertInitiator :: string

text \<open>
  What the service does to the outside, in program order: a row inserted into the alert
  table, a message handed to the Kafka producer.
\<close>

datatype effect = AlertCreated OutdatedVersionAlert | MessageEmitted KafkaEvent

record world =
  alerts :: "OutdatedVersionAlert list"
  effects :: "effect list"
  logged :: "(string \<times> string) list"

section \<open>The store adapter\<close>

text \<open>
  A \<^verbatim>\<open>where\<close> object of \<^verbatim>\<open>updateMany\<close>: every key that is present is an equality
  condition, the conditions are conjoined, and a key whose value is \<^verbatim>\<open>undefined\<close>
  (\<open>None\<close> here) is no condition at all. That is how the store client reads
  \<^verbatim>\<open>blockId: args.data.block?.connect?.id\<close> when the arguments carry no block.
\<close>

record AlertWhere =
  whereResourceId :: "string option"
  whereBlockId :: "string option"
  whereType :: "EnumOutdatedVersionAlertType option"
  whereStatus :: "EnumOutdatedVersionAlertStatus option"

definition whereMatches :: "AlertWhere \<Rightarrow> OutdatedVersionAlert \<Rightarrow> bool" where
  "whereMatches wh a =
     ((case whereResourceId wh of None \<Rightarrow> True | Some r \<Rightarrow> resourceId a = r) \<and>
      (case whereBlockId wh of None \<Rightarrow> True | Some b \<Rightarrow> blockId a = Some b) \<and>
      (case whereType wh of None \<Rightarrow> True | Some t \<Rightarrow> alertType a = t) \<and>
      (case whereStatus wh of None \<Rightarrow> True | Some s \<Rightarrow> status a = s))"

definition updateMany ::
  "AlertWhere \<Rightarrow> EnumOutdatedVersionAlertStatus \<Rightarrow> OutdatedVersionAlert list \<Rightarrow>
   OutdatedVersionAlert list" where
  "updateMany wh st rows = map (\<lambda>a. if whereMatches wh a then a\<lparr>status := st\<rparr> else a) rows"

text \<open>The store gives a new row an identifier that no row of the table has.\<close>

definition freshId :: "OutdatedVersionAlert list \<Rightarrow> nat" where
  "freshId rows = Suc (foldr max (map alertId rows) 0)"

section \<open>create, resolvesServiceTemplateUpdated, update\<close>

text \<open>
  \<^verbatim>\<open>CreateOutdatedVersionAlertArgs.data\<close>: the resource and the optional block are
  \<^verbatim>\<open>connect\<close> references by id; a status the caller supplies is overwritten by
  \<^verbatim>\<open>status: New\<close>, which the spread puts last.
\<close>

record CreateData =
  dataResource :: string
  dataBlock :: "string option"
  dataType :: EnumOutdatedVersionAlertType
  dataOutdatedVersion :: string
  dataLatestVersion :: string
  dataStatus :: "EnumOutdatedVersionAlertStatus option"

definition create :: "CreateData \<Rightarrow> world \<Rightarrow> OutdatedVersionAlert \<times> world" where
  "create args w =
     (let rows = updateMany
            \<lparr>whereResourceId = Some (dataResource args),
             whereBlockId = dataBlock args,
             whereType = Some (dataType args),
             whereStatus = Some New\<rparr> Canceled (alerts w);
          outdatedVersionAlert =
            \<lparr>alertId = freshId rows,
             resourceId = dataResource args,
             blockId = dataBlock args,
             alertType = dataType args,
             status = New,
             outdatedVersion = dataOutdatedVersion args,
             latestVersion = dataLatestVersion args\<rparr>
      in (outdatedVersionAlert,
          w\<lparr>alerts := rows @ [outdatedVersionAlert],
            effects := effects w @ [AlertCreated outdatedVersionAlert]\<rparr>))"

definition resolvesServiceTemplateUpdated :: "string \<Rightarrow> world \<Rightarrow> world" where
  "resolvesServiceTemplateUpdated rid w =
     w\<lparr>alerts := updateMany
          \<lparr>whereResourceId = Some rid,
           whereBlockId = None,
           whereType = Some TemplateVersion,
           whereStatus = Some New\<rparr> Resolved (alerts w)\<rparr>"

datatype error = AmplicationError string | TypeError string | RecordNotFound

text \<open>
  Modelled from the spec: the type \<^verbatim>\<open>UpdateOutdatedVersionAlertArgs\<close>, which the
  service imports. \<^verbatim>\<open>update\<close> is a "direct pass-through update of an alert record" with
  "no additional invariant enforcement", one that "could move a Resolved alert back to
  New": the arguments name a row by its id and may carry a new status. The function
  itself hands them to the store unchanged; the store rejects the call when no row has
  the id.
\<close>

record UpdateArgs =
  updateWhereId :: nat
  updateDataStatus :: "EnumOutdatedVersionAlertStatus option"

definition applyUpdate :: "UpdateArgs \<Rightarrow> OutdatedVersionAlert \<Rightarrow> OutdatedVersionAlert" where
  "applyUpdate args a =
     (case updateDataStatus args of None \<Rightarrow> a | Some s \<Rightarrow> a\<lparr>status := s\<rparr>)"

definition update :: "UpdateArgs \<Rightarrow> world \<Rightarrow> (error + OutdatedVersionAlert) \<times> world" where
  "update args w =
     (case find (\<lambda>a. alertId a = updateWhereId args) (alerts w) of
        None \<Rightarrow> (Inl RecordNotFound, w)
      | Some a \<Rightarrow>
          (Inr (applyUpdate args a),
           w\<lparr>alerts := map (\<lambda>b. if alertId b = updateWhereId args
                                then applyUpdate args b else b) (alerts w)\<rparr>))"

section \<open>The alert scope and its invariant\<close>

definition scopeOf ::
  "OutdatedVersionAlert \<Rightarrow> string \<times> string option \<times> EnumOutdatedVersionAlertType" where
  "scopeOf a = (resourceId a, blockId a, alertType a)"

definition isNew :: "OutdatedVersionAlert \<Rightarrow> bool" where
  "isNew a = (status a = New)"

text \<open>At most one row with status New for each (resourceId, blockId, type).\<close>

definition atMostOneNew :: "OutdatedVersionAlert list \<Rightarrow> bool" where
  "atMostOneNew rows = distinct (map scopeOf (filter isNew rows))"

section \<open>The collaborators\<close>

text \<open>
  The resource, project and plugin-installation services, the configuration, the
  encryption helper, the clock and the Kafka producer are parameters of the fan-out
  functions. A lookup returns \<open>None\<close> where the JavaScript value is \<^verbatim>\<open>null\<close> or
  \<^verbatim>\<open>undefined\<close>.
\<close>

record Resource =
  res_id :: string
  res_name :: string
  res_resourceType :: EnumResourceType
  res_projectId :: string
  res_deletedAt :: "nat option"
  res_archived :: bool

record Workspace =
  ws_id :: string

record Project =
  proj_id :: string
  proj_name :: string
  proj_workspaceId :: string

record ServiceTemplateVersion =
  stv_version :: string

record PluginInstallation =
  pi_id :: string
  pi_resourceId :: string
  pi_version :: string
  pi_displayName :: string

text \<open>
  \<open>resources env t p\<close> answers the query for the resources whose
  \<^verbatim>\<open>serviceTemplateId\<close> is \<open>t\<close> in the project \<open>p\<close>;
  \<open>findPluginInstallationByPluginId env pl p\<close> the installations of plugin \<open>pl\<close> on
  resources of project \<open>p\<close>. \<open>dateNow env n\<close> is what \<^verbatim>\<open>Date.now()\<close> returns when it
  is read after \<open>n\<close> effects, and \<open>emitMessage env n ev\<close> is the fate of the promise of
  the emission dispatched after \<open>n\<close> effects: \<open>None\<close> when it resolves, the error when it
  rejects.
\<close>

record env =
  resource :: "string \<Rightarrow> Resource option"
  getResourceWorkspace :: "string \<Rightarrow> Workspace option"
  findFirst :: "string \<Rightarrow> Project option"
  resources :: "string \<Rightarrow> string \<Rightarrow> Resource list"
  getServiceTemplateSettings :: "string \<Rightarrow> ServiceTemplateVersion option"
  findPluginInstallationByPluginId :: "string \<Rightarrow> string \<Rightarrow> PluginInstallation list"
  clientHost :: string
  encryptString :: "string \<Rightarrow> string"
  dateNow :: "nat \<Rightarrow> nat"
  emitMessage :: "nat \<Rightarrow> KafkaEvent \<Rightarrow> string option"

text \<open>
  \<^verbatim>\<open>emitMessage(...).catch(error => logger.error(msg, error))\<close>: the message is
  dispatched, nothing waits for it, and a rejection ends in the log.
\<close>

definition emitMessageCatch :: "env \<Rightarrow> KafkaEvent \<Rightarrow> string \<Rightarrow> world \<Rightarrow> world" where
  "emitMessageCatch e ev msg w =
     (case emitMessage e (length (effects w)) ev of
        None \<Rightarrow> w\<lparr>effects := effects w @ [MessageEmitted ev]\<rparr>
      | Some err \<Rightarrow> w\<lparr>effects := effects w @ [MessageEmitted ev],
                       logged := logged w @ [(msg, err)]\<rparr>)"

section \<open>triggerAlertsForTemplateVersion\<close>

text \<open>
  The body of the \<^verbatim>\<open>for\<close> loop over the services. Reading a property of a
  \<^verbatim>\<open>null\<close> collaborator result throws a TypeError (named after the property) at the
  place where the source reads it: \<^verbatim>\<open>currentTemplateVersion.version\<close> before the
  alert is created, \<^verbatim>\<open>workspace.id\<close> and \<^verbatim>\<open>project.name\<close> after it, while the
  event is built.
\<close>

fun templateVersionLoop ::
  "env \<Rightarrow> Resource \<Rightarrow> Workspace option \<Rightarrow> Project option \<Rightarrow> string \<Rightarrow> string \<Rightarrow>
   Resource list \<Rightarrow> world \<Rightarrow> (error + unit) \<times> world" where
  "templateVersionLoop e template workspace project latest userId [] w = (Inr (), w)"
| "templateVersionLoop e template workspace project latest userId (service # services) w =
     (case getServiceTemplateSettings e (res_id service) of
        None \<Rightarrow> (Inl (TypeError ''version''), w)
      | Some currentTemplateVersion \<Rightarrow>
          (case create
                  \<lparr>dataResource = res_id service,
                   dataBlock = None,
                   dataType = TemplateVersion,
                   dataOutdatedVersion = stv_version currentTemplateVersion,
                   dataLatestVersion = latest,
                   dataStatus = None\<rparr> w of
             (alert, w1) \<Rightarrow>
               (case workspace of
                  None \<Rightarrow> (Inl (TypeError ''id''), w1)
                | Some ws \<Rightarrow>
                    (case project of
                       None \<Rightarrow> (Inl (TypeError ''name''), w1)
                     | Some p \<Rightarrow>
                         templateVersionLoop e template workspace project latest userId
                           services
                           (emitMessageCatch e
                              \<lparr>ev_resourceId = res_id service,
                               ev_resourceName = res_name service,
                               ev_workspaceId = ws_id ws,
                               ev_projectId = res_projectId template,
                               ev_createdAt = dateNow e (length (effects w1)),
                               ev_techDebtId = alertId alert,
                               ev_envBaseUrl = clientHost e,
                               ev_externalId = encryptString e userId,
                               ev_resourceType = res_resourceType service,
                               ev_projectName = proj_name p,
                               ev_alertType = alertType alert,
                               ev_alertInitiator = res_name template\<rparr>
                              (''Failed to queue tech debt for service '' @ res_id service)
                              w1)))))"

definition triggerAlertsForTemplateVersion ::
  "env \<Rightarrow> string \<Rightarrow> string option \<Rightarrow> string \<Rightarrow> string \<Rightarrow> world \<Rightarrow> (error + unit) \<times> world" where
  "triggerAlertsForTemplateVersion e templateResourceId outdated latest userId w =
     (case resource e templateResourceId of
        None \<Rightarrow>
          (Inl (AmplicationError
             (''Cannot trigger alerts. Template with id '' @ templateResourceId @
              '' not found'')), w)
      | Some template \<Rightarrow>
          if res_resourceType template \<noteq> ServiceTemplate then
            (Inl (AmplicationError
               (''Cannot trigger alerts. Resource with id '' @ templateResourceId @
                '' is not a template'')), w)
          else
            (let workspace = getResourceWorkspace e templateResourceId;
                 project = findFirst e (res_projectId template);
                 services = resources e templateResourceId (res_projectId template)
             in if outdated \<noteq> None
                then templateVersionLoop e template workspace project latest userId services w
                else (Inr (), w)))"

section \<open>triggerAlertsForNewPluginVersion\<close>

fun pluginVersionLoop ::
  "env \<Rightarrow> string \<Rightarrow> Project option \<Rightarrow> string \<Rightarrow> string \<Rightarrow> PluginInstallation list \<Rightarrow>
   world \<Rightarrow> (error + unit) \<times> world" where
  "pluginVersionLoop e projectId project newVersion userId [] w = (Inr (), w)"
| "pluginVersionLoop e projectId project newVersion userId
     (pluginInstallation # pluginInstallations) w =
     (case create
             \<lparr>dataResource = pi_resourceId pluginInstallation,
              dataBlock = Some (pi_id pluginInstallation),
              dataType = PluginVersion,
              dataOutdatedVersion = pi_version pluginInstallation,
              dataLatestVersion = newVersion,
              dataStatus = None\<rparr> w of
        (alert, w1) \<Rightarrow>
          (case resource e (resourceId alert) of
             None \<Rightarrow> (Inl (TypeError ''name''), w1)
           | Some res \<Rightarrow>
               (case project of
                  None \<Rightarrow> (Inl (TypeError ''workspaceId''), w1)
                | Some p \<Rightarrow>
                    pluginVersionLoop e projectId project newVersion userId
                      pluginInstallations
                      (emitMessageCatch e
                         \<lparr>ev_resourceId = pi_resourceId pluginInstallation,
                          ev_resourceName = res_name res,
                          ev_workspaceId = proj_workspaceId p,
                          ev_projectId = projectId,
                          ev_createdAt = dateNow e (length (effects w1)),
                          ev_techDebtId = alertId alert,
                          ev_envBaseUrl = clientHost e,
                          ev_externalId = encryptString e userId,
                          ev_resourceType = res_resourceType res,
                          ev_projectName = proj_name p,
                          ev_alertType = alertType alert,
                          ev_alertInitiator = pi_displayName pluginInstallation\<rparr>
                         (''Failed to queue tech debt for plugin '' @
                          pi_id pluginInstallation)
                         w1))))"

definition triggerAlertsForNewPluginVersion ::
  "env \<Rightarrow> string \<Rightarrow> string \<Rightarrow> string \<Rightarrow> string \<Rightarrow> world \<Rightarrow> (error + unit) \<times> world" where
  "triggerAlertsForNewPluginVersion e projectId pluginId newVersion userId w =
     (let pluginInstallations = findPluginInstallationByPluginId e pluginId projectId;
          project = findFirst e projectId
      in pluginVersionLoop e projectId project newVersion userId pluginInstallations w)"

section \<open>findMany\<close>

text \<open>
  Modelled from the spec: the type \<^verbatim>\<open>FindManyOutdatedVersionAlertArgs\<close>, "a
  filter/arguments object" of the store adapter. A \<^verbatim>\<open>where\<close> object is kept as far as
  \<^verbatim>\<open>findMany\<close> looks into it: the \<^verbatim>\<open>resource\<close> key with its \<^verbatim>\<open>deletedAt\<close> and
  \<^verbatim>\<open>archived\<close> keys, each an optional condition on the field, and one predicate for
  the conjunction of all other keys (the logical combinators among them). The store
  conjoins the keys of an object; the relation filter \<^verbatim>\<open>resource\<close> holds of a row when
  the resource the row refers to satisfies it. Of the other arguments, \<^verbatim>\<open>skip\<close> and
  \<^verbatim>\<open>take\<close> cut the list of matching rows.
\<close>

record ResourceWhere =
  rwDeletedAt :: "(nat option \<Rightarrow> bool) option"
  rwArchived :: "(bool \<Rightarrow> bool) option"
  rwOther :: "Resource \<Rightarrow> bool"

record OutdatedVersionAlertWhere =
  awResource :: "ResourceWhere option"
  awOther :: "OutdatedVersionAlert \<Rightarrow> bool"

record FindManyArgs =
  fmWhere :: "OutdatedVersionAlertWhere option"
  fmSkip :: "nat option"
  fmTake :: "nat option"

definition resourceWhereMatches :: "ResourceWhere \<Rightarrow> Resource \<Rightarrow> bool" where
  "resourceWhereMatches rw r =
     ((case rwDeletedAt rw of None \<Rightarrow> True | Some c \<Rightarrow> c (res_deletedAt r)) \<and>
      (case rwArchived rw of None \<Rightarrow> True | Some c \<Rightarrow> c (res_archived r)) \<and>
      rwOther rw r)"

definition owningResource :: "Resource list \<Rightarrow> OutdatedVersionAlert \<Rightarrow> Resource option" where
  "owningResource table a = find (\<lambda>r. res_id r = resourceId a) table"

definition alertWhereMatches ::
  "Resource list \<Rightarrow> OutdatedVersionAlertWhere \<Rightarrow> OutdatedVersionAlert \<Rightarrow> bool" where
  "alertWhereMatches table wh a =
     (awOther wh a \<and>
      (case awResource wh of
         None \<Rightarrow> True
       | Some rw \<Rightarrow>
           (case owningResource table a of
              None \<Rightarrow> False
            | Some r \<Rightarrow> resourceWhereMatches rw r)))"

definition storeFindMany ::
  "FindManyArgs \<Rightarrow> Resource list \<Rightarrow> OutdatedVersionAlert list \<Rightarrow> OutdatedVersionAlert list" where
  "storeFindMany args table rows =
     (let matching = (case fmWhere args of
                        None \<Rightarrow> rows
                      | Some wh \<Rightarrow> filter (alertWhereMatches table wh) rows);
          skipped = (case fmSkip args of None \<Rightarrow> matching | Some n \<Rightarrow> drop n matching)
      in case fmTake args of None \<Rightarrow> skipped | Some n \<Rightarrow> take n skipped)"

text \<open>
  \<^verbatim>\<open>{...args.where, resource: {...args.where?.resource, deletedAt: null, archived: {not: true}}}\<close>:
  the keys written after a spread replace the caller's.
\<close>

definition mergedResourceWhere :: "OutdatedVersionAlertWhere option \<Rightarrow> ResourceWhere" where
  "mergedResourceWhere wh =
     (case (case wh of None \<Rightarrow> None | Some x \<Rightarrow> awResource x) of
        None \<Rightarrow>
          \<lparr>rwDeletedAt = Some (\<lambda>d. d = None), rwArchived = Some (\<lambda>b. b \<noteq> True),
           rwOther = (\<lambda>r. True)\<rparr>
      | Some rw \<Rightarrow>
          rw\<lparr>rwDeletedAt := Some (\<lambda>d. d = None), rwArchived := Some (\<lambda>b. b \<noteq> True)\<rparr>)"

definition mergedWhere :: "OutdatedVersionAlertWhere option \<Rightarrow> OutdatedVersionAlertWhere" where
  "mergedWhere wh =
     (case wh of
        None \<Rightarrow> \<lparr>awResource = Some (mergedResourceWhere wh), awOther = (\<lambda>a. True)\<rparr>
      | Some x \<Rightarrow> x\<lparr>awResource := Some (mergedResourceWhere wh)\<rparr>)"

definition findMany ::
  "FindManyArgs \<Rightarrow> Resource list \<Rightarrow> world \<Rightarrow> OutdatedVersionAlert list" where
  "findMany args table w =
     storeFindMany (args\<lparr>fmWhere := Some (mergedWhere (fmWhere args))\<rparr>) table (alerts w)"

section \<open>useProjectBaseUrl\<close>

text \<open>
  The hook asks the router for a match of the current pathname against two patterns, in
  this order. The router compiles a pattern to a regular expression that is anchored at
  the start, ignores the case of ASCII letters, lets the trailing slash be absent and ends
  the match at the end of the pathname or in front of a slash. A parameter's class
  \<^verbatim>\<open>[A-Za-z0-9-]{20,}\<close> has no slash in it, so the parameter is the longest run of such
  characters at its place.
\<close>

definition isIdChar :: "char \<Rightarrow> bool" where
  "isIdChar c =
     (c \<in> set ''ABCDEFGHIJKLMNOPQRSTUVWXYZabcdefghijklmnopqrstuvwxyz0123456789-'')"

definition lowerAscii :: "char \<Rightarrow> char" where
  "lowerAscii c =
     (case map_of (zip ''ABCDEFGHIJKLMNOPQRSTUVWXYZ'' ''abcdefghijklmnopqrstuvwxyz'') c of
        None \<Rightarrow> c
      | Some l \<Rightarrow> l)"

definition platformPattern :: string where
  "platformPattern = ''/:workspace([A-Za-z0-9-]{20,})/platform/:project([A-Za-z0-9-]{20,})/''"

definition plainPattern :: string where
  "plainPattern = ''/:workspace([A-Za-z0-9-]{20,})/:project([A-Za-z0-9-]{20,})/''"

text \<open>
  \<open>matchSegments sep pathname\<close>: a slash, the workspace, the separator (compared without
  case), the project, then the end of the pathname or a slash.
\<close>

definition matchSegments :: "string \<Rightarrow> string \<Rightarrow> (string \<times> string) option" where
  "matchSegments sep pathname =
     (case pathname of
        [] \<Rightarrow> None
      | c # rest \<Rightarrow>
          if c \<noteq> CHR ''/'' then None
          else
            (let workspace = takeWhile isIdChar rest;
                 afterWorkspace = dropWhile isIdChar rest
             in if length workspace < 20 then None
                else if map lowerAscii (take (length sep) afterWorkspace) \<noteq> sep then None
                else
                  (let afterSep = drop (length sep) afterWorkspace;
                       project = takeWhile isIdChar afterSep;
                       afterProject = dropWhile isIdChar afterSep
                   in if length project < 20 then None
                      else
                        (case afterProject of
                           [] \<Rightarrow> Some (workspace, project)
                         | d # _ \<Rightarrow>
                             if d = CHR ''/'' then Some (workspace, project) else None))))"

record RouteMatch =
  matchPath :: string
  paramWorkspace :: string
  paramProject :: string

definition useRouteMatch :: "string \<Rightarrow> RouteMatch option" where
  "useRouteMatch pathname =
     (case matchSegments ''/platform/'' pathname of
        Some (ws, pr) \<Rightarrow>
          Some \<lparr>matchPath = platformPattern, paramWorkspace = ws, paramProject = pr\<rparr>
      | None \<Rightarrow>
          (case matchSegments ''/'' pathname of
             Some (ws, pr) \<Rightarrow>
               Some \<lparr>matchPath = plainPattern, paramWorkspace = ws, paramProject = pr\<rparr>
           | None \<Rightarrow> None))"

fun includes_str :: "string \<Rightarrow> string \<Rightarrow> bool" where
  "includes_str [] sub = (sub = [])"
| "includes_str (c # cs) sub = (take (length sub) (c # cs) = sub \<or> includes_str cs sub)"

record BaseUrlResult =
  baseUrl :: string
  isPlatformConsole :: bool

definition useProjectBaseUrl :: "bool option \<Rightarrow> string \<Rightarrow> BaseUrlResult" where
  "useProjectBaseUrl overrideIsPlatformConsole pathname =
     (case useRouteMatch pathname of
        None \<Rightarrow> \<lparr>baseUrl = [], isPlatformConsole = False\<rparr>
      | Some m \<Rightarrow>
          (let platformConsole =
                 (case overrideIsPlatformConsole of
                    None \<Rightarrow> includes_str (matchPath m) ''/platform/''
                  | Some b \<Rightarrow> b);
               platformPath = (if platformConsole then ''/platform'' else [])
           in \<lparr>baseUrl = ''/'' @ paramWorkspace m @ platformPath @ ''/'' @ paramProject m,
               isPlatformConsole = platformConsole\<rparr>))"

section \<open>Reading the effects\<close>

fun createdAlerts :: "effect list \<Rightarrow> OutdatedVersionAlert list" where
  "createdAlerts [] = []"
| "createdAlerts (AlertCreated a # tr) = a # createdAlerts tr"
| "createdAlerts (MessageEmitted ev # tr) = createdAlerts tr"

fun emittedEvents :: "effect list \<Rightarrow> KafkaEvent list" where
  "emittedEvents [] = []"
| "emittedEvents (AlertCreated a # tr) = emittedEvents tr"
| "emittedEvents (MessageEmitted ev # tr) = ev # emittedEvents tr"

text \<open>
  The shape of what one fan-out adds to the effects: pairs of a created alert and the
  message that carries its id and type, and at the very end possibly a created alert
  alone (the function threw while it built the message).
\<close>

fun creationThenEmission :: "effect list \<Rightarrow> bool" where
  "creationThenEmission [] = True"
| "creationThenEmission [AlertCreated a] = True"
| "creationThenEmission (AlertCreated a # MessageEmitted ev # tr) =
     (ev_techDebtId ev = alertId a \<and> ev_alertType ev = alertType a \<and>
      creationThenEmission tr)"
| "creationThenEmission (AlertCreated a # AlertCreated b # tr) = False"
| "creationThenEmission (MessageEmitted ev # tr) = False"

section \<open>What the plugin fan-out owes to one installation\<close>




section \<open>Example inputs\<close>

definition templateAlert ::
  "nat \<Rightarrow> string \<Rightarrow> EnumOutdatedVersionAlertStatus \<Rightarrow> OutdatedVersionAlert" where
  "templateAlert i r s =
     \<lparr>alertId = i, resourceId = r, blockId = None, alertType = TemplateVersion, status = s,
      outdatedVersion = ''1.0.0'', latestVersion = ''1.1.0''\<rparr>"

definition exampleWorld :: world where
  "exampleWorld =
     \<lparr>alerts = [templateAlert 1 ''svcA'' New, templateAlert 2 ''svcA'' Resolved,
                templateAlert 3 ''svcB'' New],
      effects = [], logged = []\<rparr>"

definition exampleCreateData :: CreateData where
  "exampleCreateData =
     \<lparr>dataResource = ''svcA'', dataBlock = None, dataType = TemplateVersion,
      dataOutdatedVersion = ''1.1.0'', dataLatestVersion = ''1.2.0'', dataStatus = None\<rparr>"

definition exampleResource :: "string \<Rightarrow> string \<Rightarrow> EnumResourceType \<Rightarrow> Resource" where
  "exampleResource i n t =
     \<lparr>res_id = i, res_name = n, res_resourceType = t, res_projectId = ''projP'',
      res_deletedAt = None, res_archived = False\<rparr>"

definition exampleTemplate :: Resource where
  "exampleTemplate = exampleResource ''tmplT'' ''Template T'' ServiceTemplate"

definition serviceA :: Resource where
  "serviceA = exampleResource ''svcA'' ''Service A'' (OtherResourceType ''Service'')"

definition serviceB :: Resource where
  "serviceB = exampleResource ''svcB'' ''Service B'' (OtherResourceType ''Service'')"

definition exampleProject :: Project where
  "exampleProject = \<lparr>proj_id = ''projP'', proj_name = ''Project P'', proj_workspaceId = ''wsW''\<rparr>"

definition installation1 :: PluginInstallation where
  "installation1 =
     \<lparr>pi_id = ''block1'', pi_resourceId = ''svcA'', pi_version = ''2.0.0'',
      pi_displayName = ''AWS S3''\<rparr>"

definition installation2 :: PluginInstallation where
  "installation2 =
     \<lparr>pi_id = ''block2'', pi_resourceId = ''svcB'', pi_version = ''2.1.0'',
      pi_displayName = ''AWS S3''\<rparr>"

text \<open>In the example the broker rejects every message about service A.\<close>

definition exampleEnv :: env where
  "exampleEnv =
     \<lparr>resource = (\<lambda>i. if i = ''tmplT'' then Some exampleTemplate
                      else if i = ''svcA'' then Some serviceA
                      else if i = ''svcB'' then Some serviceB else None),
      getResourceWorkspace = (\<lambda>i. Some \<lparr>ws_id = ''wsW''\<rparr>),
      findFirst = (\<lambda>i. if i = ''projP'' then Some exampleProject else None),
      resources = (\<lambda>t p. if t = ''tmplT'' \<and> p = ''projP'' then [serviceA, serviceB] else []),
      getServiceTemplateSettings = (\<lambda>i. Some \<lparr>stv_version = ''1.0.0''\<rparr>),
      findPluginInstallationByPluginId =
        (\<lambda>pl p. if pl = ''plugin-aws-s3'' \<and> p = ''projP''
                then [installation1, installation2] else []),
      clientHost = ''https://app.example'',
      encryptString = (\<lambda>s. ''enc:'' @ s),
      dateNow = (\<lambda>n. 1000 + n),
      emitMessage = (\<lambda>n ev. if ev_resourceId ev = ''svcA'' then Some ''broker down'' else None)\<rparr>"

text \<open>
  A resource table in which service A is soft-deleted, and a caller of \<open>findMany\<close> who
  asks for the alerts of deleted resources.
\<close>

definition exampleTable :: "Resource list" where
  "exampleTable = [exampleTemplate, serviceA\<lparr>res_deletedAt := Some 42\<rparr>, serviceB]"

definition exampleFindManyArgs :: FindManyArgs where
  "exampleFindManyArgs =
     \<lparr>fmWhere = Some \<lparr>awResource = Some \<lparr>rwDeletedAt = Some (\<lambda>d. d \<noteq> None),
                                              rwArchived = None,
                                              rwOther = (\<lambda>r. True)\<rparr>,
                       awOther = (\<lambda>a. True)\<rparr>,
      fmSkip = None, fmTake = None\<rparr>"

definition examplePlatformPath :: string where
  "examplePlatformPath = ''/clu0a1b2c3d4e5f6g7h8i9j0/platform/clp0a1b2c3d4e5f6g7h8i9j0/settings''"

section \<open>The store adapter and the invariant\<close>

lemma length_updateMany: "length (updateMany wh st rows) = length rows"
  by (simp add: updateMany_def)

lemma nth_updateMany:
  "i < length rows \<Longrightarrow> updateMany wh st rows ! i =
     (if whereMatches wh (rows ! i) then (rows ! i)\<lparr>status := st\<rparr> else rows ! i)"
  by (simp add: updateMany_def)

lemma filter_isNew_updateMany:
  "st \<noteq> New \<Longrightarrow>
   filter isNew (updateMany wh st rows) = filter (\<lambda>a. \<not> whereMatches wh a) (filter isNew rows)"
  by (induction rows) (auto simp: updateMany_def isNew_def)

lemma atMostOneNew_updateMany:
  "st \<noteq> New \<Longrightarrow> atMostOneNew rows \<Longrightarrow> atMostOneNew (updateMany wh st rows)"
proof -
  assume st: "st \<noteq> New" and d: "atMostOneNew rows"
  have "distinct (map scopeOf (filter (\<lambda>a. \<not> whereMatches wh a) (filter isNew rows)))"
    using d unfolding atMostOneNew_def by (rule distinct_map_filter)
  then show ?thesis
    unfolding atMostOneNew_def by (simp only: filter_isNew_updateMany [OF st])
qed

lemma alerts_create:
  "alerts (snd (create args w)) =
     updateMany \<lparr>whereResourceId = Some (dataResource args), whereBlockId = dataBlock args,
                 whereType = Some (dataType args), whereStatus = Some New\<rparr> Canceled (alerts w)
     @ [fst (create args w)]"
  by (simp add: create_def Let_def)

lemma fst_create:
  "fst (create args w) =
     \<lparr>alertId = freshId (updateMany \<lparr>whereResourceId = Some (dataResource args), whereBlockId = dataBlock args,
                 whereType = Some (dataType args), whereStatus = Some New\<rparr> Canceled (alerts w)),
      resourceId = dataResource args, blockId = dataBlock args, alertType = dataType args,
      status = New, outdatedVersion = dataOutdatedVersion args,
      latestVersion = dataLatestVersion args\<rparr>"
  by (simp add: create_def Let_def)

lemma scope_matches:
  "scopeOf a = (dataResource args, dataBlock args, dataType args) \<Longrightarrow> status a = New \<Longrightarrow>
   whereMatches \<lparr>whereResourceId = Some (dataResource args), whereBlockId = dataBlock args,
                 whereType = Some (dataType args), whereStatus = Some New\<rparr> a"
  by (auto simp: scopeOf_def whereMatches_def split: option.splits)

lemma no_New_in_scope_after_cancel:
  "filter (\<lambda>a. scopeOf a = (dataResource args, dataBlock args, dataType args) \<and> status a = New)
     (updateMany \<lparr>whereResourceId = Some (dataResource args), whereBlockId = dataBlock args,
                 whereType = Some (dataType args), whereStatus = Some New\<rparr> Canceled rows) = []"
  by (induction rows) (auto simp: updateMany_def dest: scope_matches)

lemma atMostOneNew_create:
  assumes "atMostOneNew (alerts w)"
  shows "atMostOneNew (alerts (snd (create args w)))"
proof -
  let ?wh = "\<lparr>whereResourceId = Some (dataResource args), whereBlockId = dataBlock args,
                 whereType = Some (dataType args), whereStatus = Some New\<rparr>"
  let ?rows = "updateMany ?wh Canceled (alerts w)"
  let ?a = "fst (create args w)"
  have d: "atMostOneNew ?rows" using assms by (simp add: atMostOneNew_updateMany)
  have sc: "scopeOf ?a = (dataResource args, dataBlock args, dataType args)"
    by (simp add: fst_create scopeOf_def)
  have n: "isNew ?a" by (simp add: fst_create isNew_def)
  have "scopeOf ?a \<notin> scopeOf ` set (filter isNew ?rows)"
  proof
    assume "scopeOf ?a \<in> scopeOf ` set (filter isNew ?rows)"
    then obtain b where b: "b \<in> set ?rows" "isNew b" "scopeOf b = scopeOf ?a" by auto
    then have "b \<in> set (filter (\<lambda>a. scopeOf a = (dataResource args, dataBlock args, dataType args) \<and> status a = New) ?rows)"
      by (simp add: sc isNew_def)
    then show False by (simp only: no_New_in_scope_after_cancel set_simps empty_iff)
  qed
  then show ?thesis using d n
    by (simp add: alerts_create atMostOneNew_def)
qed

lemma atMostOneNew_resolves:
  "atMostOneNew (alerts w) \<Longrightarrow> atMostOneNew (alerts (resolvesServiceTemplateUpdated rid w))"
  by (simp add: resolvesServiceTemplateUpdated_def atMostOneNew_updateMany)

lemma foldr_max_ge: "x \<in> set xs \<Longrightarrow> x \<le> foldr max xs (0::nat)"
  by (induction xs) auto

lemma freshId_greater: "a \<in> set rows \<Longrightarrow> alertId a < freshId rows"
  using foldr_max_ge [of "alertId a" "map alertId rows"] by (simp add: freshId_def)

lemma alertId_updateMany: "map alertId (updateMany wh st rows) = map alertId rows"
  by (simp add: updateMany_def)


lemma create_fresh: "b \<in> set (alerts w) \<Longrightarrow> alertId b < alertId (fst (create args w))"
proof -
  assume b: "b \<in> set (alerts w)"
  let ?rows = "updateMany \<lparr>whereResourceId = Some (dataResource args),
      whereBlockId = dataBlock args, whereType = Some (dataType args),
      whereStatus = Some New\<rparr> Canceled (alerts w)"
  have "alertId b \<in> set (map alertId ?rows)"
    using b by (simp add: alertId_updateMany)
  then obtain c where "c \<in> set ?rows" "alertId c = alertId b" by auto
  then have "alertId b < freshId ?rows" using freshId_greater [of c ?rows] by simp
  then show ?thesis by (simp add: create_def Let_def)
qed


lemma create_fields:
  "resourceId (fst (create args w)) = dataResource args"
  "blockId (fst (create args w)) = dataBlock args"
  "alertType (fst (create args w)) = dataType args"
  "status (fst (create args w)) = New"
  "outdatedVersion (fst (create args w)) = dataOutdatedVersion args"
  "latestVersion (fst (create args w)) = dataLatestVersion args"
  by (simp_all add: create_def Let_def)


lemma effects_create:
  "effects (snd (create args w)) = effects w @ [AlertCreated (fst (create args w))]"
  by (simp add: create_def Let_def)


section \<open>Emission and the effects\<close>

lemma alerts_emitMessageCatch: "alerts (emitMessageCatch e ev msg w) = alerts w"
  by (simp add: emitMessageCatch_def split: option.splits)

lemma effects_emitMessageCatch:
  "effects (emitMessageCatch e ev msg w) = effects w @ [MessageEmitted ev]"
  by (simp add: emitMessageCatch_def split: option.splits)

lemma createdAlerts_append: "createdAlerts (xs @ ys) = createdAlerts xs @ createdAlerts ys"
  by (induction xs rule: createdAlerts.induct) simp_all

lemma emittedEvents_append: "emittedEvents (xs @ ys) = emittedEvents xs @ emittedEvents ys"
  by (induction xs rule: emittedEvents.induct) simp_all

section \<open>The fan-out loops\<close>

lemma atMostOneNew_templateVersionLoop:
  "atMostOneNew (alerts w) \<Longrightarrow>
   atMostOneNew (alerts (snd (templateVersionLoop e template workspace project latest userId services w)))"
proof (induction services arbitrary: w)
  case Nil
  then show ?case by simp
next
  case (Cons service services)
  show ?case
  proof (cases "getServiceTemplateSettings e (res_id service)")
    case None
    then show ?thesis using Cons.prems by simp
  next
    case (Some v)
    let ?args = "\<lparr>dataResource = res_id service, dataBlock = None, dataType = TemplateVersion,
                   dataOutdatedVersion = stv_version v, dataLatestVersion = latest,
                   dataStatus = None\<rparr>"
    obtain alert w1 where c: "create ?args w = (alert, w1)" by (cases "create ?args w")
    have w1: "atMostOneNew (alerts w1)"
      using atMostOneNew_create [OF Cons.prems, of ?args] c by simp
    show ?thesis
      using Some c w1 Cons.IH
      by (cases workspace; cases project) (simp_all add: alerts_emitMessageCatch)
  qed
qed

lemma atMostOneNew_pluginVersionLoop:
  "atMostOneNew (alerts w) \<Longrightarrow>
   atMostOneNew (alerts (snd (pluginVersionLoop e projectId project newVersion userId pis w)))"
proof (induction pis arbitrary: w)
  case Nil
  then show ?case by simp
next
  case (Cons p pis)
  let ?args = "\<lparr>dataResource = pi_resourceId p, dataBlock = Some (pi_id p),
                 dataType = PluginVersion, dataOutdatedVersion = pi_version p,
                 dataLatestVersion = newVersion, dataStatus = None\<rparr>"
  obtain alert w1 where c: "create ?args w = (alert, w1)" by (cases "create ?args w")
  have w1: "atMostOneNew (alerts w1)"
    using atMostOneNew_create [OF Cons.prems, of ?args] c by simp
  show ?case
    using c w1 Cons.IH
    by (cases "resource e (resourceId alert)"; cases project)
      (simp_all add: alerts_emitMessageCatch)
qed

lemma atMostOneNew_triggerAlertsForTemplateVersion:
  "atMostOneNew (alerts w) \<Longrightarrow>
   atMostOneNew (alerts (snd (triggerAlertsForTemplateVersion e t ov lv u w)))"
  by (simp add: triggerAlertsForTemplateVersion_def Let_def atMostOneNew_templateVersionLoop
      split: option.splits)

lemma atMostOneNew_triggerAlertsForNewPluginVersion:
  "atMostOneNew (alerts w) \<Longrightarrow>
   atMostOneNew (alerts (snd (triggerAlertsForNewPluginVersion e p pl nv u w)))"
  by (simp add: triggerAlertsForNewPluginVersion_def Let_def atMostOneNew_pluginVersionLoop)



lemma templateVersionLoop_trace:
  "\<exists>tr. effects (snd (templateVersionLoop e tm ws pr lv u svcs w)) = effects w @ tr \<and>
        creationThenEmission tr"
proof (induction svcs arbitrary: w)
  case Nil
  then show ?case by simp
next
  case (Cons s svcs)
  show ?case
  proof (cases "getServiceTemplateSettings e (res_id s)")
    case None
    then show ?thesis by simp
  next
    case (Some cv)
    let ?args = "\<lparr>dataResource = res_id s, dataBlock = None, dataType = TemplateVersion,
                   dataOutdatedVersion = stv_version cv, dataLatestVersion = lv,
                   dataStatus = None\<rparr>"
    let ?a = "fst (create ?args w)"
    let ?w1 = "snd (create ?args w)"
    have e1: "effects ?w1 = effects w @ [AlertCreated ?a]" by (rule effects_create)
    show ?thesis
    proof (cases ws)
      case None
      have "creationThenEmission [AlertCreated ?a]" by simp
      then show ?thesis using Some None e1 by (simp add: case_prod_beta)
    next
      case wsv: (Some wsv)
      show ?thesis
      proof (cases pr)
        case None
        have "creationThenEmission [AlertCreated ?a]" by simp
        then show ?thesis using Some wsv None e1 by (simp add: case_prod_beta)
      next
        case p: (Some p)
        let ?ev = "\<lparr>ev_resourceId = res_id s, ev_resourceName = res_name s,
                     ev_workspaceId = ws_id wsv, ev_projectId = res_projectId tm,
                     ev_createdAt = dateNow e (length (effects ?w1)),
                     ev_techDebtId = alertId ?a, ev_envBaseUrl = clientHost e,
                     ev_externalId = encryptString e u, ev_resourceType = res_resourceType s,
                     ev_projectName = proj_name p, ev_alertType = alertType ?a,
                     ev_alertInitiator = res_name tm\<rparr>"
        let ?w2 = "emitMessageCatch e ?ev (''Failed to queue tech debt for service '' @ res_id s) ?w1"
        obtain tr where tr: "effects (snd (templateVersionLoop e tm ws pr lv u svcs ?w2)) =
            effects ?w2 @ tr" "creationThenEmission tr"
          using Cons.IH [of ?w2] by blast
        have "effects (snd (templateVersionLoop e tm ws pr lv u (s # svcs) w)) =
            effects w @ (AlertCreated ?a # MessageEmitted ?ev # tr)"
          using Some tr(1) by (simp add: case_prod_beta wsv p effects_emitMessageCatch e1)
        moreover have "creationThenEmission (AlertCreated ?a # MessageEmitted ?ev # tr)"
          using tr(2) by simp
        ultimately show ?thesis by blast
      qed
    qed
  qed
qed

lemma pluginVersionLoop_trace:
  "\<exists>tr. effects (snd (pluginVersionLoop e pid pr nv u pis w)) = effects w @ tr \<and>
        creationThenEmission tr"
proof (induction pis arbitrary: w)
  case Nil
  then show ?case by simp
next
  case (Cons s pis)
  let ?args = "\<lparr>dataResource = pi_resourceId s, dataBlock = Some (pi_id s),
                 dataType = PluginVersion, dataOutdatedVersion = pi_version s,
                 dataLatestVersion = nv, dataStatus = None\<rparr>"
  let ?a = "fst (create ?args w)"
  let ?w1 = "snd (create ?args w)"
  have e1: "effects ?w1 = effects w @ [AlertCreated ?a]" by (rule effects_create)
  have one: "creationThenEmission [AlertCreated ?a]" by simp
  show ?case
  proof (cases "resource e (resourceId ?a)")
    case None
    then show ?thesis using e1 one by (simp add: case_prod_beta)
  next
    case r: (Some r)
    show ?thesis
    proof (cases pr)
      case None
      then show ?thesis using r e1 one by (simp add: case_prod_beta)
    next
      case p: (Some p)
      let ?ev = "\<lparr>ev_resourceId = pi_resourceId s, ev_resourceName = res_name r,
                   ev_workspaceId = proj_workspaceId p, ev_projectId = pid,
                   ev_createdAt = dateNow e (length (effects ?w1)),
                   ev_techDebtId = alertId ?a, ev_envBaseUrl = clientHost e,
                   ev_externalId = encryptString e u, ev_resourceType = res_resourceType r,
                   ev_projectName = proj_name p, ev_alertType = alertType ?a,
                   ev_alertInitiator = pi_displayName s\<rparr>"
      let ?w2 = "emitMessageCatch e ?ev (''Failed to queue tech debt for plugin '' @ pi_id s) ?w1"
      obtain tr where tr: "effects (snd (pluginVersionLoop e pid pr nv u pis ?w2)) =
          effects ?w2 @ tr" "creationThenEmission tr"
        using Cons.IH [of ?w2] by blast
      have "effects (snd (pluginVersionLoop e pid pr nv u (s # pis) w)) =
          effects w @ (AlertCreated ?a # MessageEmitted ?ev # tr)"
        using r tr(1) by (simp add: case_prod_beta p effects_emitMessageCatch e1)
      moreover have "creationThenEmission (AlertCreated ?a # MessageEmitted ?ev # tr)"
        using tr(2) by simp
      ultimately show ?thesis by blast
    qed
  qed
qed

lemma creationThenEmission_nth:
  "creationThenEmission tr \<Longrightarrow> j < length tr \<Longrightarrow> tr ! j = MessageEmitted ev \<Longrightarrow>
   0 < j \<and> (\<exists>a. tr ! (j - 1) = AlertCreated a \<and> ev_techDebtId ev = alertId a \<and>
                 ev_alertType ev = alertType a)"
proof (induction tr arbitrary: j rule: creationThenEmission.induct)
  case (3 a ev' tr)
  consider "j = 0" | "j = 1" | k where "j = Suc (Suc k)"
    by (metis One_nat_def not0_implies_Suc)
  then show ?case
  proof cases
    case 1
    then show ?thesis using "3.prems" by simp
  next
    case 2
    then show ?thesis using "3.prems" by simp
  next
    case 3
    then have "0 < k \<and> (\<exists>a. tr ! (k - 1) = AlertCreated a \<and> ev_techDebtId ev = alertId a \<and>
                 ev_alertType ev = alertType a)"
      using "3.IH" [of k] "3.prems" by simp
    then show ?thesis using 3 by (cases k) auto
  qed
qed simp_all


text \<open>
  Where a lookup returns nothing, the iteration throws where the source reads a property
  of the missing value: before the alert is created when the template settings are
  missing, after it (and before any emission) when the workspace, the project or the
  owning resource is missing. The remaining services or installations are not reached.
\<close>

lemma pluginVersionLoop_missing_resource:
  "resource e (pi_resourceId inst) = None \<Longrightarrow>
   pluginVersionLoop e pid pr nv u (inst # rest) w =
     (Inl (TypeError ''name''),
      snd (create \<lparr>dataResource = pi_resourceId inst, dataBlock = Some (pi_id inst),
                   dataType = PluginVersion, dataOutdatedVersion = pi_version inst,
                   dataLatestVersion = nv, dataStatus = None\<rparr> w))"
  by (simp add: case_prod_beta create_fields)

lemma templateVersionLoop_missing_settings:
  "getServiceTemplateSettings e (res_id service) = None \<Longrightarrow>
   templateVersionLoop e tm ws pr lv u (service # rest) w = (Inl (TypeError ''version''), w)"
  by simp

lemma templateVersionLoop_missing_workspace:
  "getServiceTemplateSettings e (res_id service) = Some v \<Longrightarrow>
   templateVersionLoop e tm None pr lv u (service # rest) w =
     (Inl (TypeError ''id''),
      snd (create \<lparr>dataResource = res_id service, dataBlock = None,
                   dataType = TemplateVersion, dataOutdatedVersion = stv_version v,
                   dataLatestVersion = lv, dataStatus = None\<rparr> w))"
  by (simp add: case_prod_beta)

section \<open>The example runs\<close>

lemmas rundefs = exampleEnv_def exampleWorld_def exampleTemplate_def serviceA_def serviceB_def
  exampleResource_def exampleProject_def templateAlert_def installation1_def installation2_def
  triggerAlertsForTemplateVersion_def triggerAlertsForNewPluginVersion_def create_def
  updateMany_def whereMatches_def freshId_def emitMessageCatch_def Let_def

lemma example_template_run:
  "triggerAlertsForTemplateVersion exampleEnv ''tmplT'' (Some ''1.0.0'') ''1.1.0'' ''user1''
     exampleWorld =
   (Inr (),
    \<lparr>alerts =
       [templateAlert 1 ''svcA'' Canceled, templateAlert 2 ''svcA'' Resolved,
        templateAlert 3 ''svcB'' Canceled, templateAlert 4 ''svcA'' New,
        templateAlert 5 ''svcB'' New],
     effects =
       [AlertCreated (templateAlert 4 ''svcA'' New),
        MessageEmitted
          \<lparr>ev_resourceId = ''svcA'', ev_resourceName = ''Service A'',
           ev_workspaceId = ''wsW'', ev_projectId = ''projP'', ev_createdAt = 1001,
           ev_techDebtId = 4, ev_envBaseUrl = ''https://app.example'',
           ev_externalId = ''enc:user1'', ev_resourceType = OtherResourceType ''Service'',
           ev_projectName = ''Project P'', ev_alertType = TemplateVersion,
           ev_alertInitiator = ''Template T''\<rparr>,
        AlertCreated (templateAlert 5 ''svcB'' New),
        MessageEmitted
          \<lparr>ev_resourceId = ''svcB'', ev_resourceName = ''Service B'',
           ev_workspaceId = ''wsW'', ev_projectId = ''projP'', ev_createdAt = 1003,
           ev_techDebtId = 5, ev_envBaseUrl = ''https://app.example'',
           ev_externalId = ''enc:user1'', ev_resourceType = OtherResourceType ''Service'',
           ev_projectName = ''Project P'', ev_alertType = TemplateVersion,
           ev_alertInitiator = ''Template T''\<rparr>],
     logged = [(''Failed to queue tech debt for service svcA'', ''broker down'')]\<rparr>)"
  by (simp add: rundefs)


section \<open>findMany and the router\<close>

lemma set_storeFindMany:
  "set (storeFindMany args table rows) \<subseteq>
     (case fmWhere args of None \<Rightarrow> set rows
      | Some wh \<Rightarrow> {a \<in> set rows. alertWhereMatches table wh a})"
proof -
  have "set (storeFindMany args table rows) \<subseteq>
     set (case fmWhere args of None \<Rightarrow> rows | Some wh \<Rightarrow> filter (alertWhereMatches table wh) rows)"
    unfolding storeFindMany_def Let_def
    by (cases "fmSkip args"; cases "fmTake args")
       (auto dest!: in_set_takeD in_set_dropD)
  then show ?thesis by (auto split: option.splits)
qed

lemma mergedResourceWhere_matches:
  "resourceWhereMatches (mergedResourceWhere wh) r \<Longrightarrow>
   res_deletedAt r = None \<and> \<not> res_archived r"
  by (auto simp: resourceWhereMatches_def mergedResourceWhere_def split: option.splits)

lemma mergedWhere_resource: "awResource (mergedWhere wh) = Some (mergedResourceWhere wh)"
  by (simp add: mergedWhere_def split: option.splits)

lemma matchSegments_Cons:
  "matchSegments sep (c # rest) =
     (if c \<noteq> CHR ''/'' then None
      else if length (takeWhile isIdChar rest) < 20 then None
      else if map lowerAscii (take (length sep) (dropWhile isIdChar rest)) \<noteq> sep then None
      else if length (takeWhile isIdChar (drop (length sep) (dropWhile isIdChar rest))) < 20
           then None
      else (case dropWhile isIdChar (drop (length sep) (dropWhile isIdChar rest)) of
              [] \<Rightarrow> Some (takeWhile isIdChar rest,
                         takeWhile isIdChar (drop (length sep) (dropWhile isIdChar rest)))
            | d # _ \<Rightarrow>
                if d = CHR ''/''
                then Some (takeWhile isIdChar rest,
                           takeWhile isIdChar (drop (length sep) (dropWhile isIdChar rest)))
                else None))"
  unfolding matchSegments_def Let_def list.case by (rule refl)

lemma guarded_result:
  "(if p1 then None else if p2 then None else if p3 then None else if p4 then None
    else (case l of [] \<Rightarrow> Some v | d # _ \<Rightarrow> if q d then Some v else None)) = Some x \<Longrightarrow>
   x = v \<and> \<not> p1 \<and> \<not> p2 \<and> \<not> p3 \<and> \<not> p4"
  by (cases p1; cases p2; cases p3; cases p4; cases l) (simp_all split: if_split_asm)

lemma matchSegments_Some:
  assumes "matchSegments sep pathname = Some (ws, pr)"
  shows "20 \<le> length ws \<and> (\<forall>c \<in> set ws. isIdChar c) \<and>
   20 \<le> length pr \<and> (\<forall>c \<in> set pr. isIdChar c)"
proof -
  obtain c rest where p: "pathname = c # rest"
    using assms by (cases pathname) (simp_all add: matchSegments_def)
  note g = guarded_result [OF assms [unfolded p matchSegments_Cons]]
  from g have ws: "ws = takeWhile isIdChar rest"
    and pr: "pr = takeWhile isIdChar (drop (length sep) (dropWhile isIdChar rest))"
    by blast+
  from g have "20 \<le> length ws" unfolding ws by (simp only: not_less) 
  moreover from g have "20 \<le> length pr" unfolding pr by (simp only: not_less)
  moreover have "\<forall>c \<in> set ws. isIdChar c" unfolding ws by (auto dest: set_takeWhileD)
  moreover have "\<forall>c \<in> set pr. isIdChar c" unfolding pr by (auto dest: set_takeWhileD)
  ultimately show ?thesis by blast
qed

lemma useRouteMatch_Some:
  assumes "useRouteMatch pathname = Some m"
  shows "(matchPath m = platformPattern \<or> matchPath m = plainPattern) \<and>
   20 \<le> length (paramWorkspace m) \<and> (\<forall>c \<in> set (paramWorkspace m). isIdChar c) \<and>
   20 \<le> length (paramProject m) \<and> (\<forall>c \<in> set (paramProject m). isIdChar c)"
proof (cases "matchSegments ''/platform/'' pathname")
  case None
  then obtain ws pr where s: "matchSegments ''/'' pathname = Some (ws, pr)"
    and m: "m = \<lparr>matchPath = plainPattern, paramWorkspace = ws, paramProject = pr\<rparr>"
    using assms unfolding useRouteMatch_def
    by (cases "matchSegments ''/'' pathname") auto
  show ?thesis using matchSegments_Some [OF s] unfolding m by simp
next
  case (Some x)
  obtain ws pr where x: "x = (ws, pr)" by (cases x)
  have m: "m = \<lparr>matchPath = platformPattern, paramWorkspace = ws, paramProject = pr\<rparr>"
    using assms Some unfolding useRouteMatch_def x by simp
  show ?thesis using matchSegments_Some [OF Some [unfolded x]] unfolding m by simp
qed

lemma includes_platformPattern: "includes_str platformPattern ''/platform/''"
  by (simp add: platformPattern_def)

lemma includes_plainPattern: "\<not> includes_str plainPattern ''/platform/''"
  by (simp add: plainPattern_def)

lemma patterns_differ: "plainPattern \<noteq> platformPattern"
  by (simp add: plainPattern_def platformPattern_def)

lemma example_no_match: "useRouteMatch ''/login'' = None"
  by code_simp

lemma example_platform_match: "useRouteMatch examplePlatformPath =
   Some \<lparr>matchPath = platformPattern, paramWorkspace = ''clu0a1b2c3d4e5f6g7h8i9j0'',
         paramProject = ''clp0a1b2c3d4e5f6g7h8i9j0''\<rparr>"
  by code_simp

text \<open>
  Conversely, a pathname made of a slash, a workspace, the separator, a project and
  nothing or a slash-led rest is matched, with these parameters.
\<close>

lemma slash_not_idChar: "\<not> isIdChar CHR ''/''"
  by (simp add: isIdChar_def)

lemma takeWhile_segment:
  "\<forall>c \<in> set seg. isIdChar c \<Longrightarrow> tail = [] \<or> hd tail = CHR ''/'' \<Longrightarrow>
   takeWhile isIdChar (seg @ tail) = seg \<and> dropWhile isIdChar (seg @ tail) = tail"
  using slash_not_idChar
  by (cases tail) (simp_all add: takeWhile_append2 dropWhile_append2)

lemma lower_platform: "map lowerAscii ''/platform/'' = ''/platform/''"
  by (simp add: lowerAscii_def)

lemma lower_slash: "map lowerAscii ''/'' = ''/''"
  by (simp add: lowerAscii_def)

lemma matchSegments_complete:
  assumes ws: "20 \<le> length ws" "\<forall>c \<in> set ws. isIdChar c"
    and pr: "20 \<le> length pr" "\<forall>c \<in> set pr. isIdChar c"
    and tail: "tail = [] \<or> hd tail = CHR ''/''"
    and sep: "sep \<noteq> []" "hd sep = CHR ''/''" "map lowerAscii sep = sep"
  shows "matchSegments sep (''/'' @ ws @ sep @ pr @ tail) = Some (ws, pr)"
proof -
  have s: "sep @ pr @ tail \<noteq> [] \<and> hd (sep @ pr @ tail) = CHR ''/''"
    using sep by simp
  have 1: "takeWhile isIdChar (ws @ sep @ pr @ tail) = ws"
    "dropWhile isIdChar (ws @ sep @ pr @ tail) = sep @ pr @ tail"
    using takeWhile_segment [OF ws(2), of "sep @ pr @ tail"] s by simp_all
  have 2: "takeWhile isIdChar (pr @ tail) = pr" "dropWhile isIdChar (pr @ tail) = tail"
    using takeWhile_segment [OF pr(2) tail] by simp_all
  have 3: "\<not> length ws < 20" "\<not> length pr < 20"
    using ws(1) pr(1) by simp_all
  have t: "take (length sep) (sep @ pr @ tail) = sep"
    and d: "drop (length sep) (sep @ pr @ tail) = pr @ tail"
    by simp_all
  have "matchSegments sep (CHR ''/'' # ws @ sep @ pr @ tail) =
      (case tail of [] \<Rightarrow> Some (ws, pr)
       | d # _ \<Rightarrow> if d = CHR ''/'' then Some (ws, pr) else None)"
    unfolding matchSegments_Cons 1 t d 2 using 3 sep(3) by simp
  also have "\<dots> = Some (ws, pr)"
    using tail by (cases tail) simp_all
  finally have "matchSegments sep (CHR ''/'' # ws @ sep @ pr @ tail) = Some (ws, pr)" .
  then show ?thesis by simp
qed

lemma third_guard:
  "\<not> p1 \<Longrightarrow> \<not> p2 \<Longrightarrow> p3 \<Longrightarrow>
   (if p1 then None else if p2 then None else if p3 then None else x) = None"
  by simp

lemma useRouteMatch_complete:
  assumes "20 \<le> length ws" and "\<forall>c \<in> set ws. isIdChar c"
    and "20 \<le> length pr" and "\<forall>c \<in> set pr. isIdChar c"
    and "tail = [] \<or> hd tail = CHR ''/''"
  shows "useRouteMatch (''/'' @ ws @ ''/platform/'' @ pr @ tail) =
           Some \<lparr>matchPath = platformPattern, paramWorkspace = ws, paramProject = pr\<rparr>"
    and "useRouteMatch (''/'' @ ws @ ''/'' @ pr @ tail) =
           Some \<lparr>matchPath = plainPattern, paramWorkspace = ws, paramProject = pr\<rparr>"
proof -
  have p: "matchSegments ''/platform/'' (''/'' @ ws @ ''/platform/'' @ pr @ tail) = Some (ws, pr)"
    using matchSegments_complete [OF assms, of "''/platform/''"] lower_platform by simp
  then show "useRouteMatch (''/'' @ ws @ ''/platform/'' @ pr @ tail) =
           Some \<lparr>matchPath = platformPattern, paramWorkspace = ws, paramProject = pr\<rparr>"
    by (simp only: useRouteMatch_def option.case prod.case)
  have q: "matchSegments ''/'' (''/'' @ ws @ ''/'' @ pr @ tail) = Some (ws, pr)"
    using matchSegments_complete [OF assms, of "''/''"] lower_slash by simp
  have d: "dropWhile isIdChar (ws @ ''/'' @ pr @ tail) = ''/'' @ pr @ tail"
    using takeWhile_segment [OF assms(2), of "''/'' @ pr @ tail"] by simp
  have "pr ! 8 \<in> set pr" using assms(3) by simp
  then have ne: "pr ! 8 \<noteq> CHR ''/''"
    using assms(4) slash_not_idChar by metis
  have nth: "take 10 (''/'' @ pr @ tail) ! 9 = pr ! 8"
    using assms(3) by (simp add: nth_append)
  have low: "\<And>c. lowerAscii c = CHR ''/'' \<Longrightarrow> c = CHR ''/''"
    by (simp add: lowerAscii_def split: if_split_asm)
  have neq: "map lowerAscii (take 10 (''/'' @ pr @ tail)) \<noteq> ''/platform/''"
  proof
    assume e: "map lowerAscii (take 10 (''/'' @ pr @ tail)) = ''/platform/''"
    have "length (take 10 (''/'' @ pr @ tail)) = 10" using assms(3) by simp
    then have "map lowerAscii (take 10 (''/'' @ pr @ tail)) ! 9 =
        lowerAscii (take 10 (''/'' @ pr @ tail) ! 9)"
      by (simp del: take_append)
    then have "lowerAscii (pr ! 8) = ''/platform/'' ! 9"
      unfolding e nth by simp
    then have "lowerAscii (pr ! 8) = CHR ''/''" by simp
    then show False using low ne by blast
  qed
  have tw: "takeWhile isIdChar (ws @ ''/'' @ pr @ tail) = ws"
    using takeWhile_segment [OF assms(2), of "''/'' @ pr @ tail"] by simp
  have len: "length ''/platform/'' = 10" by simp
  have n: "matchSegments ''/platform/'' (CHR ''/'' # ws @ ''/'' @ pr @ tail) = None"
    unfolding matchSegments_Cons
  proof (rule third_guard)
    show "\<not> CHR ''/'' \<noteq> CHR ''/''" by simp
    show "\<not> length (takeWhile isIdChar (ws @ ''/'' @ pr @ tail)) < 20"
      unfolding tw using assms(1) by simp
    show "map lowerAscii (take (length ''/platform/'')
            (dropWhile isIdChar (ws @ ''/'' @ pr @ tail))) \<noteq> ''/platform/''"
      unfolding d len by (rule neq)
  qed
  show "useRouteMatch (''/'' @ ws @ ''/'' @ pr @ tail) =
           Some \<lparr>matchPath = plainPattern, paramWorkspace = ws, paramProject = pr\<rparr>"
    using n q by (simp add: useRouteMatch_def)
qed


section \<open>Claim C1: create supersedes the New alerts of its scope\<close>

text \<open>
  C1, as the code has it. After \<open>create args\<close> the table has one more row; every row
  that had the scope (resourceId, blockId, type) of \<open>args\<close> and status New is Canceled;
  the only row of that scope with status New is the inserted one, which is the last row
  and the returned alert. The invariant "at most one New alert for each scope" is kept by
  \<open>create\<close>, by \<open>resolvesServiceTemplateUpdated\<close> and by both fan-out functions, which
  write through \<open>create\<close> only.
\<close>

theorem create_supersedes_New_alerts:
  "case create args w of (ret, w') \<Rightarrow>
     length (alerts w') = Suc (length (alerts w)) \<and>
     (\<forall>i < length (alerts w).
        scopeOf (alerts w ! i) = (dataResource args, dataBlock args, dataType args) \<and>
        status (alerts w ! i) = New \<longrightarrow>
        alerts w' ! i = (alerts w ! i)\<lparr>status := Canceled\<rparr>) \<and>
     filter (\<lambda>a. scopeOf a = (dataResource args, dataBlock args, dataType args) \<and>
                  status a = New) (alerts w') = [ret] \<and>
     last (alerts w') = ret \<and>
     (atMostOneNew (alerts w) \<longrightarrow>
        atMostOneNew (alerts w') \<and>
        atMostOneNew (alerts (resolvesServiceTemplateUpdated rid w)) \<and>
        atMostOneNew (alerts (snd (triggerAlertsForTemplateVersion e t ov lv u w))) \<and>
        atMostOneNew (alerts (snd (triggerAlertsForNewPluginVersion e p pl nv u w))))"
proof -
  let ?wh = "\<lparr>whereResourceId = Some (dataResource args), whereBlockId = dataBlock args,
              whereType = Some (dataType args), whereStatus = Some New\<rparr>"
  let ?rows = "updateMany ?wh Canceled (alerts w)"
  let ?ret = "fst (create args w)"
  let ?w' = "snd (create args w)"
  have a: "alerts ?w' = ?rows @ [?ret]" by (rule alerts_create)
  have 1: "length (alerts ?w') = Suc (length (alerts w))"
    by (simp add: a length_updateMany)
  have 2: "\<forall>i < length (alerts w).
        scopeOf (alerts w ! i) = (dataResource args, dataBlock args, dataType args) \<and>
        status (alerts w ! i) = New \<longrightarrow>
        alerts ?w' ! i = (alerts w ! i)\<lparr>status := Canceled\<rparr>"
    by (simp add: a nth_append length_updateMany nth_updateMany scope_matches)
  have 3: "filter (\<lambda>a. scopeOf a = (dataResource args, dataBlock args, dataType args) \<and>
                  status a = New) (alerts ?w') = [?ret]"
    by (simp add: a no_New_in_scope_after_cancel) (simp add: fst_create scopeOf_def)
  have 4: "last (alerts ?w') = ?ret" by (simp add: a)
  have 5: "atMostOneNew (alerts w) \<longrightarrow>
        atMostOneNew (alerts ?w') \<and>
        atMostOneNew (alerts (resolvesServiceTemplateUpdated rid w)) \<and>
        atMostOneNew (alerts (snd (triggerAlertsForTemplateVersion e t ov lv u w))) \<and>
        atMostOneNew (alerts (snd (triggerAlertsForNewPluginVersion e p pl nv u w)))"
    by (simp add: atMostOneNew_create atMostOneNew_resolves
        atMostOneNew_triggerAlertsForTemplateVersion
        atMostOneNew_triggerAlertsForNewPluginVersion)
  show ?thesis
    using 1 2 3 4 5 by (simp only: case_prod_beta)
qed

theorem create_supersedes_New_alerts_witness:
  "atMostOneNew (alerts exampleWorld) \<and>
   scopeOf (alerts exampleWorld ! 0) = (''svcA'', None, TemplateVersion) \<and>
   status (alerts exampleWorld ! 0) = New \<and>
   alerts (snd (create exampleCreateData exampleWorld)) ! 0 = templateAlert 1 ''svcA'' Canceled \<and>
   filter (\<lambda>a. scopeOf a = (''svcA'', None, TemplateVersion) \<and> status a = New)
     (alerts (snd (create exampleCreateData exampleWorld))) =
     [fst (create exampleCreateData exampleWorld)] \<and>
   atMostOneNew (alerts (snd (create exampleCreateData exampleWorld)))"
proof -
  have h: "atMostOneNew (alerts exampleWorld)"
    by (simp add: templateAlert_def exampleWorld_def scopeOf_def atMostOneNew_def isNew_def)
  have i: "0 < length (alerts exampleWorld)"
    "scopeOf (alerts exampleWorld ! 0) =
       (dataResource exampleCreateData, dataBlock exampleCreateData, dataType exampleCreateData)"
    "status (alerts exampleWorld ! 0) = New"
    by (simp_all add: templateAlert_def exampleWorld_def exampleCreateData_def scopeOf_def)
  note t = create_supersedes_New_alerts [where args = exampleCreateData and w = exampleWorld,
      unfolded case_prod_beta]
  from t i have 1: "alerts (snd (create exampleCreateData exampleWorld)) ! 0 =
      (alerts exampleWorld ! 0)\<lparr>status := Canceled\<rparr>"
    by blast
  from t have 2: "filter (\<lambda>a. scopeOf a =
       (dataResource exampleCreateData, dataBlock exampleCreateData, dataType exampleCreateData) \<and>
       status a = New) (alerts (snd (create exampleCreateData exampleWorld))) =
     [fst (create exampleCreateData exampleWorld)]"
    by blast
  from t h have 3: "atMostOneNew (alerts (snd (create exampleCreateData exampleWorld)))"
    by blast
  have s: "(dataResource exampleCreateData, dataBlock exampleCreateData,
            dataType exampleCreateData) = (''svcA'', None, TemplateVersion)"
    by (simp add: exampleCreateData_def)
  have c: "(alerts exampleWorld ! 0)\<lparr>status := Canceled\<rparr> = templateAlert 1 ''svcA'' Canceled"
    by (simp add: exampleWorld_def templateAlert_def)
  show ?thesis
    using h i 1 2 3 unfolding s c by (simp only: simp_thms)
qed

text \<open>
  \<open>update\<close> is an operation too, and it passes its arguments to the store as they are:
  setting the status of a Resolved alert back to New leaves two New alerts in one scope.
\<close>

theorem update_reopens_second_New_alert:
  "atMostOneNew (alerts exampleWorld) \<and>
   \<not> atMostOneNew
       (alerts (snd (update \<lparr>updateWhereId = 2, updateDataStatus = Some New\<rparr> exampleWorld)))"
  by (simp add: templateAlert_def exampleWorld_def scopeOf_def atMostOneNew_def isNew_def
      update_def applyUpdate_def)

section \<open>Claim C2: a template referenced by two services\<close>

text \<open>
  C2. The template \<open>t\<close> is a ServiceTemplate, the outdated version is not null, and the
  services that reference it in its project are exactly \<open>A\<close> and \<open>B\<close>, two different
  resources; the workspace, the project and the template settings of both services are
  found. Then \<open>triggerAlertsForTemplateVersion\<close> returns normally, adds exactly two rows
  to the alert table, both with status New and type TemplateVersion, one for \<open>A\<close> and one
  for \<open>B\<close>, with two different ids that no earlier row has, and dispatches exactly two
  messages, whose techDebtId is the id of the alert of the same service.
\<close>

theorem template_version_two_services:
  assumes "resource e t = Some tm" and "res_resourceType tm = ServiceTemplate"
    and "resources e t (res_projectId tm) = [A, B]" and "res_id A \<noteq> res_id B"
    and "getResourceWorkspace e t = Some ws" and "findFirst e (res_projectId tm) = Some p"
    and "getServiceTemplateSettings e (res_id A) = Some vA"
    and "getServiceTemplateSettings e (res_id B) = Some vB"
  shows "\<exists>w' a b evA evB.
      triggerAlertsForTemplateVersion e t (Some ov) lv u w = (Inr (), w') \<and>
      length (alerts w') = length (alerts w) + 2 \<and>
      drop (length (alerts w)) (alerts w') = [a, b] \<and>
      createdAlerts (effects w') = createdAlerts (effects w) @ [a, b] \<and>
      emittedEvents (effects w') = emittedEvents (effects w) @ [evA, evB] \<and>
      status a = New \<and> alertType a = TemplateVersion \<and> resourceId a = res_id A \<and>
      blockId a = None \<and> outdatedVersion a = stv_version vA \<and> latestVersion a = lv \<and>
      status b = New \<and> alertType b = TemplateVersion \<and> resourceId b = res_id B \<and>
      blockId b = None \<and> outdatedVersion b = stv_version vB \<and> latestVersion b = lv \<and>
      alertId a \<noteq> alertId b \<and>
      alertId a \<notin> alertId ` set (alerts w) \<and> alertId b \<notin> alertId ` set (alerts w) \<and>
      ev_techDebtId evA = alertId a \<and> ev_resourceId evA = res_id A \<and>
      ev_alertType evA = TemplateVersion \<and> ev_alertInitiator evA = res_name tm \<and>
      ev_techDebtId evB = alertId b \<and> ev_resourceId evB = res_id B \<and>
      ev_alertType evB = TemplateVersion \<and> ev_alertInitiator evB = res_name tm"
proof -
  let ?argsA = "\<lparr>dataResource = res_id A, dataBlock = None, dataType = TemplateVersion,
                  dataOutdatedVersion = stv_version vA, dataLatestVersion = lv,
                  dataStatus = None\<rparr>"
  let ?a = "fst (create ?argsA w)"
  let ?w1 = "snd (create ?argsA w)"
  let ?evA = "\<lparr>ev_resourceId = res_id A, ev_resourceName = res_name A,
                ev_workspaceId = ws_id ws, ev_projectId = res_projectId tm,
                ev_createdAt = dateNow e (length (effects ?w1)),
                ev_techDebtId = alertId ?a, ev_envBaseUrl = clientHost e,
                ev_externalId = encryptString e u, ev_resourceType = res_resourceType A,
                ev_projectName = proj_name p, ev_alertType = alertType ?a,
                ev_alertInitiator = res_name tm\<rparr>"
  let ?w2 = "emitMessageCatch e ?evA (''Failed to queue tech debt for service '' @ res_id A) ?w1"
  let ?argsB = "\<lparr>dataResource = res_id B, dataBlock = None, dataType = TemplateVersion,
                  dataOutdatedVersion = stv_version vB, dataLatestVersion = lv,
                  dataStatus = None\<rparr>"
  let ?b = "fst (create ?argsB ?w2)"
  let ?w3 = "snd (create ?argsB ?w2)"
  let ?evB = "\<lparr>ev_resourceId = res_id B, ev_resourceName = res_name B,
                ev_workspaceId = ws_id ws, ev_projectId = res_projectId tm,
                ev_createdAt = dateNow e (length (effects ?w3)),
                ev_techDebtId = alertId ?b, ev_envBaseUrl = clientHost e,
                ev_externalId = encryptString e u, ev_resourceType = res_resourceType B,
                ev_projectName = proj_name p, ev_alertType = alertType ?b,
                ev_alertInitiator = res_name tm\<rparr>"
  let ?w4 = "emitMessageCatch e ?evB (''Failed to queue tech debt for service '' @ res_id B) ?w3"
  let ?whA = "\<lparr>whereResourceId = Some (res_id A), whereBlockId = None,
                whereType = Some TemplateVersion, whereStatus = Some New\<rparr>"
  let ?whB = "\<lparr>whereResourceId = Some (res_id B), whereBlockId = None,
                whereType = Some TemplateVersion, whereStatus = Some New\<rparr>"
  have run: "triggerAlertsForTemplateVersion e t (Some ov) lv u w = (Inr (), ?w4)"
    using assms by (simp add: triggerAlertsForTemplateVersion_def case_prod_beta)
  have a1: "alerts ?w1 = updateMany ?whA Canceled (alerts w) @ [?a]"
    by (simp add: create_def Let_def)
  have a2: "alerts ?w2 = alerts ?w1" by (rule alerts_emitMessageCatch)
  have fa: "resourceId ?a = res_id A" "status ?a = New" "alertType ?a = TemplateVersion"
    "blockId ?a = None" "outdatedVersion ?a = stv_version vA" "latestVersion ?a = lv"
    by (simp_all add: create_fields)
  have fb: "resourceId ?b = res_id B" "status ?b = New" "alertType ?b = TemplateVersion"
    "blockId ?b = None" "outdatedVersion ?b = stv_version vB" "latestVersion ?b = lv"
    by (simp_all add: create_fields)
  have keep: "\<not> whereMatches ?whB ?a"
    using assms(4) by (simp add: whereMatches_def fa)
  have a3: "alerts ?w3 = updateMany ?whB Canceled (alerts ?w2) @ [?b]"
    by (simp add: create_def Let_def)
  have a4: "alerts ?w4 = updateMany ?whB Canceled (updateMany ?whA Canceled (alerts w)) @ [?a, ?b]"
    unfolding alerts_emitMessageCatch a3 a2 a1 using keep by (simp add: updateMany_def)
  have len: "length (alerts ?w4) = length (alerts w) + 2"
    unfolding a4 by (simp add: updateMany_def)
  have drp: "drop (length (alerts w)) (alerts ?w4) = [?a, ?b]"
    unfolding a4 by (simp add: updateMany_def)
  have e4: "effects ?w4 = effects w @ [AlertCreated ?a, MessageEmitted ?evA,
                                       AlertCreated ?b, MessageEmitted ?evB]"
    unfolding effects_emitMessageCatch effects_create by simp
  have ca: "createdAlerts (effects ?w4) = createdAlerts (effects w) @ [?a, ?b]"
    unfolding e4 by (simp add: createdAlerts_append)
  have em: "emittedEvents (effects ?w4) = emittedEvents (effects w) @ [?evA, ?evB]"
    unfolding e4 by (simp add: emittedEvents_append)
  have "?a \<in> set (alerts ?w2)" unfolding a2 a1 by simp
  then have ne: "alertId ?a \<noteq> alertId ?b"
    using create_fresh [of ?a ?w2 ?argsB] by simp
  have na: "alertId ?a \<notin> alertId ` set (alerts w)"
    using create_fresh [of _ w ?argsA] by fastforce
  have "\<And>x. x \<in> set (alerts w) \<Longrightarrow> alertId x \<in> alertId ` set (alerts ?w2)"
    unfolding a2 a1 using alertId_updateMany [of ?whA Canceled "alerts w"]
    by (metis (no_types, lifting) UnCI image_Un image_eqI list.set_map set_append)
  then have nb: "alertId ?b \<notin> alertId ` set (alerts w)"
    using create_fresh [of _ ?w2 ?argsB] by fastforce
  have evs: "ev_techDebtId ?evA = alertId ?a" "ev_resourceId ?evA = res_id A"
    "ev_alertType ?evA = TemplateVersion" "ev_alertInitiator ?evA = res_name tm"
    "ev_techDebtId ?evB = alertId ?b" "ev_resourceId ?evB = res_id B"
    "ev_alertType ?evB = TemplateVersion" "ev_alertInitiator ?evB = res_name tm"
    by (simp_all add: create_fields)
  show ?thesis
    using run len drp ca em fa fb ne na nb evs
    by (intro exI [of _ ?w4] exI [of _ ?a] exI [of _ ?b] exI [of _ ?evA] exI [of _ ?evB])
       (simp only: simp_thms)
qed

theorem template_version_two_services_witness:
  "resource exampleEnv ''tmplT'' = Some exampleTemplate \<and>
   res_resourceType exampleTemplate = ServiceTemplate \<and>
   resources exampleEnv ''tmplT'' (res_projectId exampleTemplate) = [serviceA, serviceB] \<and>
   res_id serviceA \<noteq> res_id serviceB \<and>
   getResourceWorkspace exampleEnv ''tmplT'' = Some \<lparr>ws_id = ''wsW''\<rparr> \<and>
   findFirst exampleEnv (res_projectId exampleTemplate) = Some exampleProject \<and>
   getServiceTemplateSettings exampleEnv (res_id serviceA) = Some \<lparr>stv_version = ''1.0.0''\<rparr> \<and>
   getServiceTemplateSettings exampleEnv (res_id serviceB) = Some \<lparr>stv_version = ''1.0.0''\<rparr> \<and>
   (\<exists>w' a b evA evB.
      triggerAlertsForTemplateVersion exampleEnv ''tmplT'' (Some ''1.0.0'') ''1.1.0'' ''user1''
        exampleWorld = (Inr (), w') \<and>
      drop (length (alerts exampleWorld)) (alerts w') = [a, b] \<and>
      emittedEvents (effects w') = emittedEvents (effects exampleWorld) @ [evA, evB] \<and>
      status a = New \<and> alertType a = TemplateVersion \<and> resourceId a = res_id serviceA \<and>
      status b = New \<and> alertType b = TemplateVersion \<and> resourceId b = res_id serviceB \<and>
      alertId a \<noteq> alertId b \<and>
      ev_techDebtId evA = alertId a \<and> ev_resourceId evA = res_id serviceA \<and>
      ev_techDebtId evB = alertId b \<and> ev_resourceId evB = res_id serviceB)"
proof -
  have h: "resource exampleEnv ''tmplT'' = Some exampleTemplate"
    "res_resourceType exampleTemplate = ServiceTemplate"
    "resources exampleEnv ''tmplT'' (res_projectId exampleTemplate) = [serviceA, serviceB]"
    "res_id serviceA \<noteq> res_id serviceB"
    "getResourceWorkspace exampleEnv ''tmplT'' = Some \<lparr>ws_id = ''wsW''\<rparr>"
    "findFirst exampleEnv (res_projectId exampleTemplate) = Some exampleProject"
    "getServiceTemplateSettings exampleEnv (res_id serviceA) = Some \<lparr>stv_version = ''1.0.0''\<rparr>"
    "getServiceTemplateSettings exampleEnv (res_id serviceB) = Some \<lparr>stv_version = ''1.0.0''\<rparr>"
    by (simp_all add: exampleEnv_def exampleTemplate_def serviceA_def serviceB_def
        exampleResource_def)
  show ?thesis
    using h template_version_two_services [OF h, of "''1.0.0''" "''1.1.0''" "''user1''" exampleWorld]
    by blast
qed

section \<open>Claim C3: a missing resource, a resource that is no template\<close>

text \<open>
  C3. When no resource has the id \<open>t\<close>, or the resource is not a ServiceTemplate,
  \<open>triggerAlertsForTemplateVersion\<close> throws an AmplicationError and the world (the alert
  table with it) is as before.
\<close>

theorem trigger_rejects_missing_or_non_template:
  "(resource e t = None \<longrightarrow>
      triggerAlertsForTemplateVersion e t ov lv u w =
        (Inl (AmplicationError
           (''Cannot trigger alerts. Template with id '' @ t @ '' not found'')), w)) \<and>
   (\<forall>r. resource e t = Some r \<and> res_resourceType r \<noteq> ServiceTemplate \<longrightarrow>
      triggerAlertsForTemplateVersion e t ov lv u w =
        (Inl (AmplicationError
           (''Cannot trigger alerts. Resource with id '' @ t @ '' is not a template'')), w))"
  by (simp add: triggerAlertsForTemplateVersion_def)

theorem trigger_rejects_missing_or_non_template_witness:
  "resource exampleEnv ''nowhere'' = None \<and>
   triggerAlertsForTemplateVersion exampleEnv ''nowhere'' (Some ''1.0.0'') ''1.1.0'' ''user1''
     exampleWorld =
     (Inl (AmplicationError ''Cannot trigger alerts. Template with id nowhere not found''),
      exampleWorld) \<and>
   resource exampleEnv ''svcA'' = Some serviceA \<and>
   res_resourceType serviceA \<noteq> ServiceTemplate \<and>
   triggerAlertsForTemplateVersion exampleEnv ''svcA'' (Some ''1.0.0'') ''1.1.0'' ''user1''
     exampleWorld =
     (Inl (AmplicationError ''Cannot trigger alerts. Resource with id svcA is not a template''),
      exampleWorld)"
proof -
  have 1: "resource exampleEnv ''nowhere'' = None"
    by (simp add: exampleEnv_def)
  have 2: "resource exampleEnv ''svcA'' = Some serviceA" "res_resourceType serviceA \<noteq> ServiceTemplate"
    by (simp_all add: exampleEnv_def serviceA_def exampleResource_def)
  note t1 = trigger_rejects_missing_or_non_template
     [where e = exampleEnv and t = "''nowhere''" and w = exampleWorld and ov = "Some ''1.0.0''"
        and lv = "''1.1.0''" and u = "''user1''"]
  note t2 = trigger_rejects_missing_or_non_template
     [where e = exampleEnv and t = "''svcA''" and w = exampleWorld and ov = "Some ''1.0.0''"
        and lv = "''1.1.0''" and u = "''user1''"]
  from t1 1 have a: "triggerAlertsForTemplateVersion exampleEnv ''nowhere'' (Some ''1.0.0'') ''1.1.0'' ''user1''
     exampleWorld =
     (Inl (AmplicationError ''Cannot trigger alerts. Template with id nowhere not found''),
      exampleWorld)" by simp
  from t2 2 have b: "triggerAlertsForTemplateVersion exampleEnv ''svcA'' (Some ''1.0.0'') ''1.1.0'' ''user1''
     exampleWorld =
     (Inl (AmplicationError ''Cannot trigger alerts. Resource with id svcA is not a template''),
      exampleWorld)" by simp
  show ?thesis using 1 2 a b by (simp only: simp_thms)
qed

section \<open>Claim C4: outdatedVersion = null\<close>

text \<open>
  C4. For an existing ServiceTemplate and \<open>outdatedVersion = null\<close>,
  \<open>triggerAlertsForTemplateVersion\<close> returns normally and leaves the world as it was: no
  alert is created and no message is emitted.
\<close>

theorem trigger_with_null_outdatedVersion:
  "resource e t = Some r \<Longrightarrow> res_resourceType r = ServiceTemplate \<Longrightarrow>
   triggerAlertsForTemplateVersion e t None lv u w = (Inr (), w)"
  by (simp add: triggerAlertsForTemplateVersion_def)

theorem trigger_with_null_outdatedVersion_witness:
  "resource exampleEnv ''tmplT'' = Some exampleTemplate \<and>
   res_resourceType exampleTemplate = ServiceTemplate \<and>
   resources exampleEnv ''tmplT'' (res_projectId exampleTemplate) = [serviceA, serviceB] \<and>
   triggerAlertsForTemplateVersion exampleEnv ''tmplT'' None ''1.1.0'' ''user1'' exampleWorld =
     (Inr (), exampleWorld)"
proof -
  have 1: "resource exampleEnv ''tmplT'' = Some exampleTemplate"
    "res_resourceType exampleTemplate = ServiceTemplate"
    "resources exampleEnv ''tmplT'' (res_projectId exampleTemplate) = [serviceA, serviceB]"
    by (simp_all add: exampleEnv_def exampleTemplate_def exampleResource_def)
  show ?thesis
    using 1 trigger_with_null_outdatedVersion [OF 1(1) 1(2), of "''1.1.0''" "''user1''" exampleWorld]
    by (simp only: simp_thms)
qed

section \<open>Claim C5: a rejected emission stays where it happened\<close>



section \<open>Claim C6: resolvesServiceTemplateUpdated and its frame\<close>

text \<open>
  C6. \<open>resolvesServiceTemplateUpdated rid\<close> sets the status Resolved on exactly the rows
  with resourceId \<open>rid\<close>, type TemplateVersion and status New; every other row keeps all
  its fields, no row is added or removed, nothing is emitted and nothing is logged.
\<close>

theorem resolvesServiceTemplateUpdated_frame:
  "length (alerts (resolvesServiceTemplateUpdated rid w)) = length (alerts w) \<and>
   (\<forall>i < length (alerts w).
      alerts (resolvesServiceTemplateUpdated rid w) ! i =
        (if resourceId (alerts w ! i) = rid \<and> alertType (alerts w ! i) = TemplateVersion \<and>
            status (alerts w ! i) = New
         then (alerts w ! i)\<lparr>status := Resolved\<rparr> else alerts w ! i)) \<and>
   effects (resolvesServiceTemplateUpdated rid w) = effects w \<and>
   logged (resolvesServiceTemplateUpdated rid w) = logged w"
  by (simp add: resolvesServiceTemplateUpdated_def length_updateMany nth_updateMany
      whereMatches_def)

theorem resolvesServiceTemplateUpdated_frame_witness:
  "alerts (resolvesServiceTemplateUpdated ''svcA'' exampleWorld) ! 0 =
     templateAlert 1 ''svcA'' Resolved \<and>
   alerts (resolvesServiceTemplateUpdated ''svcA'' exampleWorld) ! 1 =
     templateAlert 2 ''svcA'' Resolved \<and>
   alerts (resolvesServiceTemplateUpdated ''svcA'' exampleWorld) ! 2 =
     templateAlert 3 ''svcB'' New \<and>
   length (alerts (resolvesServiceTemplateUpdated ''svcA'' exampleWorld)) = 3"
proof -
  have l: "length (alerts exampleWorld) = 3"
    by (simp add: exampleWorld_def)
  note f = resolvesServiceTemplateUpdated_frame [where rid = "''svcA''" and w = exampleWorld]
  from f have a: "\<And>i. i < 3 \<Longrightarrow>
      alerts (resolvesServiceTemplateUpdated ''svcA'' exampleWorld) ! i =
        (if resourceId (alerts exampleWorld ! i) = ''svcA'' \<and>
            alertType (alerts exampleWorld ! i) = TemplateVersion \<and>
            status (alerts exampleWorld ! i) = New
         then (alerts exampleWorld ! i)\<lparr>status := Resolved\<rparr> else alerts exampleWorld ! i)"
    by (simp add: l)
  have "alerts (resolvesServiceTemplateUpdated ''svcA'' exampleWorld) ! 0 =
     templateAlert 1 ''svcA'' Resolved"
    using a [of 0] by (simp add: exampleWorld_def templateAlert_def)
  moreover have "alerts (resolvesServiceTemplateUpdated ''svcA'' exampleWorld) ! 1 =
     templateAlert 2 ''svcA'' Resolved"
    using a [of 1] by (simp add: exampleWorld_def templateAlert_def)
  moreover have "alerts (resolvesServiceTemplateUpdated ''svcA'' exampleWorld) ! 2 =
     templateAlert 3 ''svcB'' New"
    using a [of 2] by (simp add: exampleWorld_def templateAlert_def)
  moreover have "length (alerts (resolvesServiceTemplateUpdated ''svcA'' exampleWorld)) = 3"
    using f l by simp
  ultimately show ?thesis by simp
qed

section \<open>Claim C7: one alert and one message for each installation\<close>



section \<open>Claim C8: the alert is created before its message is emitted\<close>

text \<open>
  C8. In what either fan-out function adds to the effects, every emitted message comes
  directly after the creation of an alert, and its techDebtId and alertType are the id and
  the type of that alert.
\<close>

theorem alert_created_before_its_emission:
  "(\<exists>tr. effects (snd (triggerAlertsForTemplateVersion e t ov lv u w)) = effects w @ tr \<and>
      (\<forall>j ev. j < length tr \<and> tr ! j = MessageEmitted ev \<longrightarrow>
         0 < j \<and> (\<exists>a. tr ! (j - 1) = AlertCreated a \<and> ev_techDebtId ev = alertId a \<and>
                       ev_alertType ev = alertType a))) \<and>
   (\<exists>tr. effects (snd (triggerAlertsForNewPluginVersion e p pl nv u w)) = effects w @ tr \<and>
      (\<forall>j ev. j < length tr \<and> tr ! j = MessageEmitted ev \<longrightarrow>
         0 < j \<and> (\<exists>a. tr ! (j - 1) = AlertCreated a \<and> ev_techDebtId ev = alertId a \<and>
                       ev_alertType ev = alertType a)))"
proof -
  have "\<exists>tr. effects (snd (triggerAlertsForTemplateVersion e t ov lv u w)) = effects w @ tr \<and>
      creationThenEmission tr"
    using templateVersionLoop_trace
    by (simp add: triggerAlertsForTemplateVersion_def Let_def split: option.splits)
  then have 1: "\<exists>tr. effects (snd (triggerAlertsForTemplateVersion e t ov lv u w)) = effects w @ tr \<and>
      (\<forall>j ev. j < length tr \<and> tr ! j = MessageEmitted ev \<longrightarrow>
         0 < j \<and> (\<exists>a. tr ! (j - 1) = AlertCreated a \<and> ev_techDebtId ev = alertId a \<and>
                       ev_alertType ev = alertType a))"
    using creationThenEmission_nth by blast
  have "\<exists>tr. effects (snd (triggerAlertsForNewPluginVersion e p pl nv u w)) = effects w @ tr \<and>
      creationThenEmission tr"
    using pluginVersionLoop_trace
    by (simp add: triggerAlertsForNewPluginVersion_def Let_def)
  then have 2: "\<exists>tr. effects (snd (triggerAlertsForNewPluginVersion e p pl nv u w)) = effects w @ tr \<and>
      (\<forall>j ev. j < length tr \<and> tr ! j = MessageEmitted ev \<longrightarrow>
         0 < j \<and> (\<exists>a. tr ! (j - 1) = AlertCreated a \<and> ev_techDebtId ev = alertId a \<and>
                       ev_alertType ev = alertType a))"
    using creationThenEmission_nth by blast
  show ?thesis using 1 2 by (rule conjI)
qed

theorem alert_created_before_its_emission_witness:
  "\<exists>ev a.
     effects (snd (triggerAlertsForTemplateVersion exampleEnv ''tmplT'' (Some ''1.0.0'')
                     ''1.1.0'' ''user1'' exampleWorld)) ! 1 = MessageEmitted ev \<and>
     effects (snd (triggerAlertsForTemplateVersion exampleEnv ''tmplT'' (Some ''1.0.0'')
                     ''1.1.0'' ''user1'' exampleWorld)) ! 0 = AlertCreated a \<and>
     ev_resourceId ev = ''svcA'' \<and> resourceId a = ''svcA'' \<and>
     ev_techDebtId ev = alertId a \<and> ev_alertType ev = alertType a"
proof -
  let ?run = "triggerAlertsForTemplateVersion exampleEnv ''tmplT'' (Some ''1.0.0'')
                ''1.1.0'' ''user1'' exampleWorld"
  obtain tr where tr: "effects (snd ?run) = effects exampleWorld @ tr"
    "\<forall>j ev. j < length tr \<and> tr ! j = MessageEmitted ev \<longrightarrow>
       0 < j \<and> (\<exists>a. tr ! (j - 1) = AlertCreated a \<and> ev_techDebtId ev = alertId a \<and>
                     ev_alertType ev = alertType a)"
    using alert_created_before_its_emission
      [where e = exampleEnv and t = "''tmplT''" and ov = "Some ''1.0.0''" and lv = "''1.1.0''"
         and u = "''user1''" and w = exampleWorld]
    by blast
  have eq: "tr = effects (snd ?run)"
    using tr(1) by (simp add: exampleWorld_def)
  obtain ev where ev: "effects (snd ?run) ! 1 = MessageEmitted ev" "ev_resourceId ev = ''svcA''"
    by (simp add: example_template_run)
  have len: "1 < length (effects (snd ?run))"
    by (simp add: example_template_run)
  obtain a where a: "effects (snd ?run) ! (1 - 1) = AlertCreated a"
      "ev_techDebtId ev = alertId a" "ev_alertType ev = alertType a"
    using tr(2) [unfolded eq, rule_format, of 1 ev] ev(1) len by blast
  have "resourceId a = ''svcA''"
    using a(1) by (auto simp: example_template_run templateAlert_def)
  then show ?thesis using ev a by auto
qed

section \<open>Claim C9: findMany leaves out deleted and archived resources\<close>

text \<open>
  C9. Every alert that \<open>findMany\<close> returns is a row of the table whose resource exists, is
  not soft-deleted (\<open>deletedAt\<close> is null) and is not archived, whatever the caller's
  arguments are. The caller cannot override the exclusion: what the caller's
  \<^verbatim>\<open>where.resource\<close> says about \<^verbatim>\<open>deletedAt\<close> and \<^verbatim>\<open>archived\<close> has no influence
  on the result.
\<close>

theorem findMany_excludes_deleted_and_archived:
  "(\<forall>a \<in> set (findMany args table w).
      a \<in> set (alerts w) \<and>
      (\<exists>r. owningResource table a = Some r \<and> res_deletedAt r = None \<and> \<not> res_archived r)) \<and>
   findMany (args\<lparr>fmWhere := Some (wh\<lparr>awResource :=
                Some (rw\<lparr>rwDeletedAt := callerDeletedAt, rwArchived := callerArchived\<rparr>)\<rparr>)\<rparr>)
     table w =
   findMany (args\<lparr>fmWhere := Some (wh\<lparr>awResource := Some rw\<rparr>)\<rparr>) table w"
proof -
  have 1: "\<forall>a \<in> set (findMany args table w).
      a \<in> set (alerts w) \<and>
      (\<exists>r. owningResource table a = Some r \<and> res_deletedAt r = None \<and> \<not> res_archived r)"
  proof
    fix a assume "a \<in> set (findMany args table w)"
    then have m: "a \<in> set (alerts w)" "alertWhereMatches table (mergedWhere (fmWhere args)) a"
      using set_storeFindMany
        [of "args\<lparr>fmWhere := Some (mergedWhere (fmWhere args))\<rparr>" table "alerts w"]
      by (auto simp: findMany_def)
    from m(2) obtain r where "owningResource table a = Some r"
      "resourceWhereMatches (mergedResourceWhere (fmWhere args)) r"
      by (auto simp: alertWhereMatches_def mergedWhere_resource split: option.splits)
    then show "a \<in> set (alerts w) \<and>
      (\<exists>r. owningResource table a = Some r \<and> res_deletedAt r = None \<and> \<not> res_archived r)"
      using m(1) mergedResourceWhere_matches by blast
  qed
  have 2: "findMany (args\<lparr>fmWhere := Some (wh\<lparr>awResource :=
                Some (rw\<lparr>rwDeletedAt := callerDeletedAt, rwArchived := callerArchived\<rparr>)\<rparr>)\<rparr>)
     table w =
   findMany (args\<lparr>fmWhere := Some (wh\<lparr>awResource := Some rw\<rparr>)\<rparr>) table w"
    by (simp add: findMany_def mergedWhere_def mergedResourceWhere_def)
  show ?thesis using 1 2 by (rule conjI)
qed

theorem findMany_excludes_deleted_and_archived_witness:
  "findMany exampleFindManyArgs exampleTable exampleWorld = [templateAlert 3 ''svcB'' New] \<and>
   templateAlert 3 ''svcB'' New \<in> set (alerts exampleWorld) \<and>
   (\<exists>r. owningResource exampleTable (templateAlert 3 ''svcB'' New) = Some r \<and>
        res_deletedAt r = None \<and> \<not> res_archived r)"
proof -
  have r: "findMany exampleFindManyArgs exampleTable exampleWorld = [templateAlert 3 ''svcB'' New]"
    by (simp add: findMany_def storeFindMany_def mergedWhere_def mergedResourceWhere_def
        alertWhereMatches_def resourceWhereMatches_def owningResource_def
        exampleFindManyArgs_def exampleTable_def exampleWorld_def templateAlert_def
        exampleTemplate_def serviceA_def serviceB_def exampleResource_def)
  then have "templateAlert 3 ''svcB'' New \<in> set (findMany exampleFindManyArgs exampleTable exampleWorld)"
    by simp
  then show ?thesis
    using r findMany_excludes_deleted_and_archived
      [where args = exampleFindManyArgs and table = exampleTable and w = exampleWorld]
    by blast
qed

section \<open>Claim C10: useProjectBaseUrl\<close>

text \<open>
  C10. When the pathname matches neither pattern, the hook returns the empty base URL and
  \<open>isPlatformConsole = false\<close>, whatever the override is. When it matches, both
  parameters are at least 20 characters of \<^verbatim>\<open>[A-Za-z0-9-]\<close>, the base URL is a slash, the
  workspace, \<^verbatim>\<open>/platform\<close> if the result is a platform console, a slash and the project,
  and the result is a platform console as the override says or, without an override, when
  the platform pattern matched.
\<close>

theorem useProjectBaseUrl_result:
  "(useRouteMatch pathname = None \<longrightarrow>
      useProjectBaseUrl override pathname = \<lparr>baseUrl = [], isPlatformConsole = False\<rparr>) \<and>
   (\<forall>m. useRouteMatch pathname = Some m \<longrightarrow>
      baseUrl (useProjectBaseUrl override pathname) =
        ''/'' @ paramWorkspace m @
        (if isPlatformConsole (useProjectBaseUrl override pathname) then ''/platform'' else []) @
        ''/'' @ paramProject m \<and>
      isPlatformConsole (useProjectBaseUrl override pathname) =
        (case override of None \<Rightarrow> matchPath m = platformPattern | Some b \<Rightarrow> b) \<and>
      20 \<le> length (paramWorkspace m) \<and> (\<forall>c \<in> set (paramWorkspace m). isIdChar c) \<and>
      20 \<le> length (paramProject m) \<and> (\<forall>c \<in> set (paramProject m). isIdChar c))"
proof -
  have 1: "useRouteMatch pathname = None \<longrightarrow>
      useProjectBaseUrl override pathname = \<lparr>baseUrl = [], isPlatformConsole = False\<rparr>"
    by (simp add: useProjectBaseUrl_def)
  have 2: "\<forall>m. useRouteMatch pathname = Some m \<longrightarrow>
      baseUrl (useProjectBaseUrl override pathname) =
        ''/'' @ paramWorkspace m @
        (if isPlatformConsole (useProjectBaseUrl override pathname) then ''/platform'' else []) @
        ''/'' @ paramProject m \<and>
      isPlatformConsole (useProjectBaseUrl override pathname) =
        (case override of None \<Rightarrow> matchPath m = platformPattern | Some b \<Rightarrow> b) \<and>
      20 \<le> length (paramWorkspace m) \<and> (\<forall>c \<in> set (paramWorkspace m). isIdChar c) \<and>
      20 \<le> length (paramProject m) \<and> (\<forall>c \<in> set (paramProject m). isIdChar c)"
  proof (intro allI impI)
    fix m assume m: "useRouteMatch pathname = Some m"
    note u = useRouteMatch_Some [OF m]
    have inc: "includes_str (matchPath m) ''/platform/'' = (matchPath m = platformPattern)"
      using u includes_platformPattern includes_plainPattern patterns_differ by auto
    have b: "baseUrl (useProjectBaseUrl override pathname) =
        ''/'' @ paramWorkspace m @
        (if isPlatformConsole (useProjectBaseUrl override pathname) then ''/platform'' else []) @
        ''/'' @ paramProject m"
      by (simp add: useProjectBaseUrl_def m Let_def)
    have i: "isPlatformConsole (useProjectBaseUrl override pathname) =
        (case override of None \<Rightarrow> matchPath m = platformPattern | Some b \<Rightarrow> b)"
      by (simp add: useProjectBaseUrl_def m Let_def inc split: option.splits)
    show "baseUrl (useProjectBaseUrl override pathname) =
        ''/'' @ paramWorkspace m @
        (if isPlatformConsole (useProjectBaseUrl override pathname) then ''/platform'' else []) @
        ''/'' @ paramProject m \<and>
      isPlatformConsole (useProjectBaseUrl override pathname) =
        (case override of None \<Rightarrow> matchPath m = platformPattern | Some b \<Rightarrow> b) \<and>
      20 \<le> length (paramWorkspace m) \<and> (\<forall>c \<in> set (paramWorkspace m). isIdChar c) \<and>
      20 \<le> length (paramProject m) \<and> (\<forall>c \<in> set (paramProject m). isIdChar c)"
      using b i u by blast
  qed
  show ?thesis using 1 2 by (rule conjI)
qed

theorem useProjectBaseUrl_result_witness:
  "useRouteMatch ''/login'' = None \<and>
   useProjectBaseUrl (Some True) ''/login'' = \<lparr>baseUrl = [], isPlatformConsole = False\<rparr> \<and>
   useRouteMatch examplePlatformPath =
     Some \<lparr>matchPath = platformPattern, paramWorkspace = ''clu0a1b2c3d4e5f6g7h8i9j0'',
           paramProject = ''clp0a1b2c3d4e5f6g7h8i9j0''\<rparr> \<and>
   isPlatformConsole (useProjectBaseUrl None examplePlatformPath) \<and>
   baseUrl (useProjectBaseUrl None examplePlatformPath) =
     ''/clu0a1b2c3d4e5f6g7h8i9j0/platform/clp0a1b2c3d4e5f6g7h8i9j0''"
proof -
  note a = useProjectBaseUrl_result [where pathname = "''/login''" and override = "Some True"]
  note b = useProjectBaseUrl_result [where pathname = examplePlatformPath and override = None]
  from a example_no_match have 1: "useProjectBaseUrl (Some True) ''/login'' =
      \<lparr>baseUrl = [], isPlatformConsole = False\<rparr>"
    by blast
  from b example_platform_match have 2: "isPlatformConsole (useProjectBaseUrl None examplePlatformPath)"
    by simp
  from b example_platform_match have "baseUrl (useProjectBaseUrl None examplePlatformPath) =
        ''/'' @ ''clu0a1b2c3d4e5f6g7h8i9j0'' @
        (if isPlatformConsole (useProjectBaseUrl None examplePlatformPath)
         then ''/platform'' else []) @ ''/'' @ ''clp0a1b2c3d4e5f6g7h8i9j0''"
    by simp
  then have 3: "baseUrl (useProjectBaseUrl None examplePlatformPath) =
     ''/clu0a1b2c3d4e5f6g7h8i9j0/platform/clp0a1b2c3d4e5f6g7h8i9j0''"
    using 2 by simp
  show ?thesis using example_no_match example_platform_match 1 2 3 by (simp only: simp_thms)
qed

end
